theory Spec2Isabelle
  imports Complex_Main "HOL-Library.Sublist"
begin

section \<open>JavaScript numbers\<close>

text \<open>
  A JavaScript number is \<open>NaN\<close>, one of the two infinities, or a finite value. The finite
  values are rationals here (every finite double is one). The sign of zero is not kept:
  \<open>-0\<close> and \<open>0\<close> are both \<open>Num 0\<close>, and the source tells them apart nowhere.
\<close>

datatype jsnum = NaN | NegInfinity | PosInfinity | Num rat

fun isNaN :: "jsnum \<Rightarrow> bool" where
  "isNaN NaN = True"
| "isNaN _ = False"

text \<open>\<open>Number.isInteger\<close>, which zod's \<open>.int()\<close> applies.\<close>

fun isInteger :: "jsnum \<Rightarrow> bool" where
  "isInteger (Num r) = (of_int \<lfloor>r\<rfloor> = r)"
| "isInteger _ = False"

text \<open>\<open>a < b\<close> and \<open>a <= b\<close>: every comparison with \<open>NaN\<close> is false.\<close>

fun js_lt :: "jsnum \<Rightarrow> jsnum \<Rightarrow> bool" where
  "js_lt (Num a) (Num b) = (a < b)"
| "js_lt (Num a) PosInfinity = True"
| "js_lt NegInfinity (Num b) = True"
| "js_lt NegInfinity PosInfinity = True"
| "js_lt _ _ = False"

fun js_le :: "jsnum \<Rightarrow> jsnum \<Rightarrow> bool" where
  "js_le (Num a) (Num b) = (a \<le> b)"
| "js_le (Num a) PosInfinity = True"
| "js_le NegInfinity (Num b) = True"
| "js_le NegInfinity PosInfinity = True"
| "js_le NegInfinity NegInfinity = True"
| "js_le PosInfinity PosInfinity = True"
| "js_le _ _ = False"

text \<open>zod's \<open>.nonnegative()\<close> (\<open>n >= 0\<close>) and \<open>.positive()\<close> (\<open>n > 0\<close>).\<close>

definition nonnegative :: "jsnum \<Rightarrow> bool" where
  "nonnegative n = js_le (Num 0) n"

definition positive :: "jsnum \<Rightarrow> bool" where
  "positive n = js_lt (Num 0) n"

text \<open>
  The number value of a non-negative integer: itself below \<open>2^53\<close>, and otherwise the nearest
  number with 53 significant bits, a tie going to the even one (ECMAScript leaves the
  digits after the 20th to the implementation; the engines round correctly). From
  \<open>2^1024\<close> on the rounded value is \<open>Infinity\<close>.
\<close>

function bit_length :: "int \<Rightarrow> nat" where
  "bit_length n = (if n \<le> 0 then 0 else Suc (bit_length (n div 2)))"
  by pat_completeness auto
termination
  by (relation "measure nat") auto

declare bit_length.simps [simp del]

definition number_value :: "int \<Rightarrow> jsnum" where
  "number_value n =
     (if n < 2 ^ 53 then Num (of_int n)
      else (let e = bit_length n - 53;
                q = n div 2 ^ e;
                r = n mod 2 ^ e;
                q' = (if 2 ^ e < 2 * r \<or> (2 * r = 2 ^ e \<and> odd q) then q + 1 else q)
            in if 2 ^ 1024 \<le> q' * 2 ^ e then PosInfinity else Num (of_int (q' * 2 ^ e))))"

fun js_negate :: "jsnum \<Rightarrow> jsnum" where
  "js_negate (Num r) = Num (- r)"
| "js_negate PosInfinity = NegInfinity"
| "js_negate NegInfinity = PosInfinity"
| "js_negate NaN = NaN"

section \<open>JavaScript strings\<close>

text \<open>
  A string is a list of code units, here the ones below 256. The white space that
  \<open>trim\<close> and \<open>parseInt\<close> strip is, among them: tab, line feed, vertical tab, form feed,
  carriage return, space and no-break space.
\<close>

definition isWhiteSpace :: "char \<Rightarrow> bool" where
  "isWhiteSpace c \<longleftrightarrow> (of_char c :: nat) \<in> {9, 10, 11, 12, 13, 32, 160}"

definition trim :: "string \<Rightarrow> string" where
  "trim s = rev (dropWhile isWhiteSpace (rev (dropWhile isWhiteSpace s)))"

text \<open>\<open>s.split(c)\<close> for a separator of one character: never an empty array.\<close>

fun js_split :: "char \<Rightarrow> string \<Rightarrow> string list" where
  "js_split c [] = [[]]"
| "js_split c (x # xs) =
     (if x = c then [] # js_split c xs
      else (case js_split c xs of
              [] \<Rightarrow> [[x]]
            | piece # pieces \<Rightarrow> (x # piece) # pieces))"

text \<open>\<open>s.padEnd(maxLength, fillString)\<close>; the fill is a space when not given.\<close>

definition padEnd :: "nat \<Rightarrow> string \<Rightarrow> string \<Rightarrow> string" where
  "padEnd maxLength fillString s =
     (if maxLength \<le> length s \<or> fillString = [] then s
      else s @ take (maxLength - length s)
                 (concat (replicate (maxLength - length s) fillString)))"

definition isDigit :: "char \<Rightarrow> bool" where
  "isDigit c \<longleftrightarrow> 48 \<le> (of_char c :: nat) \<and> (of_char c :: nat) \<le> 57"

definition digitValue :: "char \<Rightarrow> int" where
  "digitValue c = of_char c - 48"

text \<open>The integer that a string of decimal digits writes.\<close>

definition mathInt :: "string \<Rightarrow> int" where
  "mathInt Z = foldl (\<lambda>acc c. 10 * acc + digitValue c) 0 Z"

text \<open>
  \<open>parseInt(string, 10)\<close>: leading white space is skipped, one sign is read, then the
  longest run of decimal digits; no digit gives \<open>NaN\<close>.
\<close>

definition parseInt :: "string \<Rightarrow> jsnum" where
  "parseInt string =
     (let S = dropWhile isWhiteSpace string;
          negative = (S \<noteq> [] \<and> hd S = CHR ''-'');
          S = (if S \<noteq> [] \<and> (hd S = CHR ''+'' \<or> hd S = CHR ''-'') then tl S else S);
          Z = takeWhile isDigit S
      in if Z = [] then NaN
         else if negative then js_negate (number_value (mathInt Z))
         else number_value (mathInt Z))"

section \<open>The generation flow (src/ai/flows/generate-timetable.ts)\<close>

subsection \<open>Input and output\<close>

record GenerateTimetableInput =
  workingDays :: jsnum
  classesPerDay :: jsnum
  subjects :: "string list"
  teachersPerSubject :: "jsnum list"
  otherConstraints :: "string option"

text \<open>
  \<open>GenerateTimetableInputSchema\<close>: \<open>workingDays\<close> and \<open>classesPerDay\<close> are
  \<open>z.number().int().positive()\<close>, \<open>subjects\<close> is an array of strings with \<open>.min(1)\<close>,
  \<open>teachersPerSubject\<close> an array of \<open>z.number().int().nonnegative()\<close>, and
  \<open>otherConstraints\<close> an optional string. The types of the record carry the rest.
\<close>

definition GenerateTimetableInputSchema :: "GenerateTimetableInput \<Rightarrow> bool" where
  "GenerateTimetableInputSchema input \<longleftrightarrow>
     isInteger (workingDays input) \<and> positive (workingDays input) \<and>
     isInteger (classesPerDay input) \<and> positive (classesPerDay input) \<and>
     1 \<le> length (subjects input) \<and>
     list_all (\<lambda>n. isInteger n \<and> nonnegative n) (teachersPerSubject input)"

text \<open>
  The value \<open>output\<close> that the prompt hands back is typed \<open>GenerateTimetableOutput\<close> by
  TypeScript, but the flow does not trust it: it tests for missing fields and for rows that
  are not arrays. So the raw value has optional fields, and a row is an array of cells
  (a string or \<open>null\<close>) or something that is not an array.
\<close>

datatype row = NotArray | Row "string option list"

record PromptOutput =
  output_days :: "string list option"
  output_periods :: "string list option"
  output_schedule :: "row list option"

text \<open>The type \<open>z.infer<typeof GenerateTimetableOutputSchema>\<close>.\<close>

record GenerateTimetableOutput =
  days :: "string list"
  periods :: "string list"
  schedule :: "string option list list"

fun parse_rows :: "row list \<Rightarrow> string option list list option" where
  "parse_rows [] = Some []"
| "parse_rows (NotArray # rs) = None"
| "parse_rows (Row cells # rs) = map_option (Cons cells) (parse_rows rs)"

text \<open>
  \<open>GenerateTimetableOutputSchema\<close>, as a parser: the typed value of a raw output that has the
  three arrays, every row of \<open>schedule\<close> an array; nothing otherwise. It keeps every field
  as it is.
\<close>

definition GenerateTimetableOutputSchema :: "PromptOutput \<Rightarrow> GenerateTimetableOutput option" where
  "GenerateTimetableOutputSchema output =
     (case (output_days output, output_periods output, output_schedule output) of
        (Some ds, Some ps, Some rows) \<Rightarrow>
          (case parse_rows rows of
             None \<Rightarrow> None
           | Some grid \<Rightarrow> Some \<lparr>days = ds, periods = ps, schedule = grid\<rparr>)
      | _ \<Rightarrow> None)"

text \<open>The raw value of a typed output: the embedding of which the parser is the inverse.\<close>

definition raw_output :: "GenerateTimetableOutput \<Rightarrow> PromptOutput" where
  "raw_output t =
     \<lparr>output_days = Some (days t), output_periods = Some (periods t),
      output_schedule = Some (map Row (schedule t))\<rparr>"

subsection \<open>Errors\<close>

text \<open>
  One constructor for each \<open>throw\<close> of the file, with the values its message interpolates,
  and one for each way the framework rejects a call: the prompt call itself failing, the
  input of the flow failing \<open>inputSchema\<close>, its result failing \<open>outputSchema\<close>.
\<close>

datatype error =
    SubjectTeacherMismatch
  | InvalidInput
  | PromptFailed
  | NoOutput
  | MissingFields
  | RowsMismatch nat nat "string list"
  | ColumnMismatch "nat option" nat "string list"
  | RowNotArray nat
  | RowLength nat nat nat
  | InvalidOutput

subsection \<open>The prompt\<close>

text \<open>
  \<open>prompt(input)\<close> asks a generative model, outside the program. The model is a parameter:
  a function of the input and of the state \<open>'w\<close> of the world it answers from, that returns
  its answer and the next state. The answer is a thrown error, or a response whose
  \<open>output\<close> may be \<open>null\<close>.
\<close>

datatype prompt_result = Throws | Response "PromptOutput option"

type_synonym 'w prompt = "GenerateTimetableInput \<Rightarrow> 'w \<Rightarrow> prompt_result \<times> 'w"

subsection \<open>The checks of the flow\<close>

text \<open>\<open>!Array.isArray(row) || row.length !== output.days.length\<close>\<close>

fun invalid_row :: "nat \<Rightarrow> row \<Rightarrow> bool" where
  "invalid_row n NotArray = True"
| "invalid_row n (Row cells) = (length cells \<noteq> n)"

text \<open>
  The \<open>for\<close> loop over the rows, from index \<open>i\<close>: the first row that is not an array or has
  the wrong length throws.
\<close>

fun check_rows :: "nat \<Rightarrow> nat \<Rightarrow> row list \<Rightarrow> error option" where
  "check_rows n i [] = None"
| "check_rows n i (NotArray # rs) = Some (RowNotArray i)"
| "check_rows n i (Row cells # rs) =
     (if length cells \<noteq> n then Some (RowLength i (length cells) n)
      else check_rows n (Suc i) rs)"

definition validate_output :: "PromptOutput \<Rightarrow> error + PromptOutput" where
  "validate_output output =
     (case (output_days output, output_periods output, output_schedule output) of
        (Some ds, Some ps, Some rows) \<Rightarrow>
          if length rows \<noteq> length ps
          then Inl (RowsMismatch (length rows) (length ps) ps)
          else if 0 < length rows \<and> list_ex (invalid_row (length ds)) rows
          then (let firstInvalidRow = find (invalid_row (length ds)) rows;
                    invalidRowLength =
                      (case firstInvalidRow of
                         Some (Row cells) \<Rightarrow> Some (length cells)
                       | _ \<Rightarrow> None)
                in Inl (ColumnMismatch invalidRowLength (length ds) ds))
          else (case check_rows (length ds) 0 rows of
                  Some e \<Rightarrow> Inl e
                | None \<Rightarrow> Inr output)
      | _ \<Rightarrow> Inl MissingFields)"

subsection \<open>The flow and its entry point\<close>

text \<open>The function given to \<open>ai.defineFlow\<close>.\<close>

definition flow_body :: "'w prompt \<Rightarrow> GenerateTimetableInput \<Rightarrow> 'w \<Rightarrow> (error + PromptOutput) \<times> 'w" where
  "flow_body prompt input w =
     (case prompt input w of
        (Throws, w') \<Rightarrow> (Inl PromptFailed, w')
      | (Response None, w') \<Rightarrow> (Inl NoOutput, w')
      | (Response (Some output), w') \<Rightarrow> (validate_output output, w'))"

text \<open>
  \<open>ai.defineFlow\<close> with \<open>inputSchema\<close> and \<open>outputSchema\<close>: the flow rejects an input
  that fails the input schema before its function runs, and parses what the function
  returns against the output schema.
\<close>

definition generateTimetableFlow ::
    "'w prompt \<Rightarrow> GenerateTimetableInput \<Rightarrow> 'w \<Rightarrow> (error + GenerateTimetableOutput) \<times> 'w" where
  "generateTimetableFlow prompt input w =
     (if \<not> GenerateTimetableInputSchema input then (Inl InvalidInput, w)
      else (case flow_body prompt input w of
              (Inl e, w') \<Rightarrow> (Inl e, w')
            | (Inr output, w') \<Rightarrow>
                (case GenerateTimetableOutputSchema output of
                   None \<Rightarrow> (Inl InvalidOutput, w')
                 | Some t \<Rightarrow> (Inr t, w'))))"

definition generateTimetable ::
    "'w prompt \<Rightarrow> GenerateTimetableInput \<Rightarrow> 'w \<Rightarrow> (error + GenerateTimetableOutput) \<times> 'w" where
  "generateTimetable prompt input w =
     (if length (subjects input) \<noteq> length (teachersPerSubject input)
      then (Inl SubjectTeacherMismatch, w)
      else generateTimetableFlow prompt input w)"

section \<open>The text export (src/components/timetable-display.tsx)\<close>

text \<open>
  \<open>data.schedule[periodIndex]?.[dayIndex]\<close>: \<open>undefined\<close> when the row or the cell is not
  there, else the cell, which is \<open>null\<close> or a string. \<open>undefined\<close> and \<open>null\<close> are both
  \<open>None\<close>: the only use of the value is \<open>|| "Free"\<close>, to which they are the same.
\<close>

definition schedule_at :: "GenerateTimetableOutput \<Rightarrow> nat \<Rightarrow> nat \<Rightarrow> string option" where
  "schedule_at data periodIndex dayIndex =
     (if periodIndex < length (schedule data)
      then (let r = schedule data ! periodIndex
            in if dayIndex < length r then r ! dayIndex else None)
      else None)"

text \<open>\<open>value || "Free"\<close>: the empty string is falsy too.\<close>

definition or_Free :: "string option \<Rightarrow> string" where
  "or_Free v = (case v of None \<Rightarrow> ''Free'' | Some s \<Rightarrow> if s = [] then ''Free'' else s)"

definition newline :: string where
  "newline = [CHR 0x0A]"

text \<open>
  \<open>convertToPlainText\<close> builds \<open>text\<close> by appending: the title, the header row, the
  separator row, and in \<open>data.periods.forEach\<close> one row for each period, itself built by
  \<open>data.days.forEach\<close>.
\<close>

definition append_day :: "GenerateTimetableOutput \<Rightarrow> nat \<Rightarrow> nat \<Rightarrow> string \<Rightarrow> string" where
  "append_day data periodIndex dayIndex text =
     (let entry = or_Free (schedule_at data periodIndex dayIndex)
      in text @ padEnd 20 '' '' entry)"

definition append_period :: "GenerateTimetableOutput \<Rightarrow> string \<times> nat \<Rightarrow> string \<Rightarrow> string" where
  "append_period data = (\<lambda>(period, periodIndex) text.
     (let text = text @ padEnd 15 '' '' period;
          text = fold (append_day data periodIndex) [0..<length (days data)] text
      in text @ newline))"

definition convertToPlainText :: "GenerateTimetableOutput \<Rightarrow> string" where
  "convertToPlainText data =
     (let text = ''Timetable'' @ newline @ newline;
          text = text @ padEnd 15 '' '' ''Period''
                   @ concat (map (\<lambda>day. padEnd 20 '' '' day) (days data)) @ newline;
          text = text @ padEnd 15 ''-'' ''''
                   @ concat (map (\<lambda>day. padEnd 20 ''-'' '''') (days data)) @ newline
      in fold (append_period data) (zip (periods data) [0..<length (periods data)]) text)"

text \<open>
  One line of the export as the description of the export has it, for comparison with what
  \<open>convertToPlainText\<close> appends: the label of period \<open>p\<close> padded to 15, then one entry padded
  to 20 for each day, then the end of the line.
\<close>

definition schedule_line :: "GenerateTimetableOutput \<Rightarrow> nat \<Rightarrow> string" where
  "schedule_line data p =
     padEnd 15 '' '' (periods data ! p)
     @ concat (map (padEnd 20 '' '')
         (map (\<lambda>d. or_Free (schedule_at data p d)) [0..<length (days data)]))
     @ newline"

section \<open>The form and its handler (src/components/timetable-form.tsx, src/page.tsx)\<close>

text \<open>
  \<open>TimetableFormValues\<close>, the values that the form schema infers: the two numbers after
  \<open>z.coerce\<close>, the two comma-separated lists as the user typed them.
\<close>

record TimetableFormValues =
  form_workingDays :: jsnum
  form_classesPerDay :: jsnum
  form_subjects :: string
  form_teachersPerSubject :: string
  form_otherConstraints :: "string option"

definition formSchema :: "TimetableFormValues \<Rightarrow> bool" where
  "formSchema data \<longleftrightarrow>
     isInteger (form_workingDays data) \<and> positive (form_workingDays data) \<and>
     js_le (Num 1) (form_workingDays data) \<and> js_le (form_workingDays data) (Num 7) \<and>
     isInteger (form_classesPerDay data) \<and> positive (form_classesPerDay data) \<and>
     js_le (Num 1) (form_classesPerDay data) \<and> js_le (form_classesPerDay data) (Num 12) \<and>
     1 \<le> length (form_subjects data) \<and>
     list_all (\<lambda>s. 0 < length s) (map trim (js_split CHR '','' (form_subjects data))) \<and>
     1 \<le> length (form_teachersPerSubject data) \<and>
     list_all (\<lambda>count. \<not> isNaN count \<and> js_le (Num 0) count)
       (map (\<lambda>t. parseInt (trim t)) (js_split CHR '','' (form_teachersPerSubject data))) \<and>
     list_all (\<lambda>count. js_le (Num 0) count)
       (map (\<lambda>t. parseInt (trim t)) (js_split CHR '','' (form_teachersPerSubject data))) \<and>
     (let subjectCount =
            length (filter (\<lambda>s. s \<noteq> []) (map trim (js_split CHR '','' (form_subjects data))));
          teacherCount =
            length (filter (\<lambda>t. t \<noteq> [])
                      (map trim (js_split CHR '','' (form_teachersPerSubject data))))
      in subjectCount = teacherCount)"

text \<open>The object \<open>input\<close> that \<open>handleGenerateTimetable\<close> prepares for the action.\<close>

definition handleGenerateTimetable_input :: "TimetableFormValues \<Rightarrow> GenerateTimetableInput" where
  "handleGenerateTimetable_input values =
     \<lparr>workingDays = form_workingDays values,
      classesPerDay = form_classesPerDay values,
      subjects = filter (\<lambda>s. s \<noteq> []) (map trim (js_split CHR '','' (form_subjects values))),
      teachersPerSubject =
        filter (\<lambda>n. \<not> isNaN n \<and> js_le (Num 0) n)
          (map (\<lambda>t. parseInt (trim t)) (js_split CHR '','' (form_teachersPerSubject values))),
      otherConstraints =
        Some (case form_otherConstraints values of None \<Rightarrow> [] | Some s \<Rightarrow> s)\<rparr>"

text \<open>
  What the handler does with the input: it stops with the toast \<open>Input Error\<close> when the
  two lists differ in length, and calls \<open>generateTimetableAction\<close> with the input
  otherwise. What it shows once the action has answered is not part of the model.
\<close>

datatype submission = InputErrorToast | ActionCalled GenerateTimetableInput

definition handleGenerateTimetable :: "TimetableFormValues \<Rightarrow> submission" where
  "handleGenerateTimetable values =
     (let input = handleGenerateTimetable_input values
      in if length (subjects input) \<noteq> length (teachersPerSubject input)
         then InputErrorToast
         else ActionCalled input)"

section \<open>Models and values for the examples\<close>

text \<open>A model that gives the same answer whatever it is asked, and leaves the world as it is.\<close>

definition answering :: "prompt_result \<Rightarrow> 'w prompt" where
  "answering r = (\<lambda>input w. (r, w))"

text \<open>
  A model that answers from a counter: the first output at an even count, the second at an
  odd one, and each call counts.
\<close>

definition alternating :: "PromptOutput \<Rightarrow> PromptOutput \<Rightarrow> nat prompt" where
  "alternating a b = (\<lambda>input n. (Response (Some (if even n then a else b)), Suc n))"

definition one_subject :: "string \<Rightarrow> jsnum \<Rightarrow> string option \<Rightarrow> GenerateTimetableInput" where
  "one_subject name teachers constraints =
     \<lparr>workingDays = Num 5, classesPerDay = Num 4, subjects = [name],
      teachersPerSubject = [teachers], otherConstraints = constraints\<rparr>"

text \<open>A grid of one day and the given periods, the same cell in every row.\<close>

definition one_day :: "string list \<Rightarrow> string option \<Rightarrow> GenerateTimetableOutput" where
  "one_day ps cell = \<lparr>days = [''Monday''], periods = ps, schedule = map (\<lambda>p. [cell]) ps\<rparr>"

section \<open>Properties of the flow\<close>

lemma check_rows_None:
  "check_rows n i rows = None \<longleftrightarrow> \<not> list_ex (invalid_row n) rows"
  by (induction n i rows rule: check_rows.induct) auto

lemma check_rows_Some: "check_rows n i rows = Some e \<Longrightarrow> list_ex (invalid_row n) rows"
  using check_rows_None [of n i rows] by auto

lemma parse_rows_valid:
  "\<not> list_ex (invalid_row n) rows \<Longrightarrow>
   \<exists>grid. parse_rows rows = Some grid \<and> map Row grid = rows \<and> (\<forall>cells \<in> set grid. length cells = n)"
  by (induction rows rule: parse_rows.induct) auto

lemma parse_rows_Some: "parse_rows rows = Some grid \<Longrightarrow> map Row grid = rows"
  by (induction rows arbitrary: grid rule: parse_rows.induct) auto

lemma parse_rows_map_Row: "parse_rows (map Row grid) = Some grid"
  by (induction grid) auto

lemma GenerateTimetableOutputSchema_raw:
  "GenerateTimetableOutputSchema output = Some t \<Longrightarrow> raw_output t = output"
  by (auto simp: GenerateTimetableOutputSchema_def raw_output_def
      split: option.splits dest: parse_rows_Some)

lemma validate_output_Inr:
  "validate_output output = Inr out \<longleftrightarrow>
     out = output \<and>
     (\<exists>ds ps rows. output_days output = Some ds \<and> output_periods output = Some ps \<and>
        output_schedule output = Some rows \<and> length rows = length ps \<and>
        \<not> list_ex (invalid_row (length ds)) rows)"
  by (auto simp: validate_output_def Let_def check_rows_None
      split: option.splits if_splits dest: check_rows_Some)

lemma invalid_row_map_Row:
  "list_ex (invalid_row n) (map Row grid) \<longleftrightarrow> (\<exists>cells \<in> set grid. length cells \<noteq> n)"
  by (induction grid) auto

lemma raw_output_inj: "raw_output a = raw_output b \<longleftrightarrow> a = b"
proof -
  have "inj Row" by (simp add: inj_def)
  then have "map Row xs = map Row ys \<longleftrightarrow> xs = ys" for xs ys
    by (rule inj_map_eq_map)
  then show ?thesis
    by (cases a, cases b) (auto simp: raw_output_def)
qed

lemma GenerateTimetableOutputSchema_raw_output:
  "GenerateTimetableOutputSchema (raw_output t) = Some t"
  by (simp add: GenerateTimetableOutputSchema_def raw_output_def parse_rows_map_Row)

lemma GenerateTimetableOutputSchema_Some:
  "GenerateTimetableOutputSchema out = Some t \<longleftrightarrow> out = raw_output t"
  using GenerateTimetableOutputSchema_raw [of out t] GenerateTimetableOutputSchema_raw_output [of t]
  by auto

lemma validate_output_cases:
  "validate_output output = Inr output \<or> (\<exists>e. validate_output output = Inl e)"
  by (cases "validate_output output") (auto simp: validate_output_Inr)

lemma validate_output_raw:
  "validate_output (raw_output t) = Inr out \<longleftrightarrow>
     out = raw_output t \<and> length (schedule t) = length (periods t) \<and>
     (\<forall>cells \<in> set (schedule t). length cells = length (days t))"
  by (auto simp: validate_output_Inr raw_output_def invalid_row_map_Row)

lemma flow_body_Inr:
  "flow_body prompt input w = (Inr output, w') \<longleftrightarrow>
     prompt input w = (Response (Some output), w') \<and> validate_output output = Inr output"
  using validate_output_cases
  by (auto simp: flow_body_def validate_output_Inr split: prod.splits prompt_result.splits option.splits)

lemma generateTimetableFlow_Inr:
  "generateTimetableFlow prompt input w = (Inr t, w') \<longleftrightarrow>
     GenerateTimetableInputSchema input \<and>
     prompt input w = (Response (Some (raw_output t)), w') \<and>
     length (schedule t) = length (periods t) \<and>
     (\<forall>cells \<in> set (schedule t). length cells = length (days t))"
proof -
  have "generateTimetableFlow prompt input w = (Inr t, w') \<longleftrightarrow>
     GenerateTimetableInputSchema input \<and> flow_body prompt input w = (Inr (raw_output t), w')"
    by (auto simp: generateTimetableFlow_def GenerateTimetableOutputSchema_Some
        GenerateTimetableOutputSchema_raw_output raw_output_inj
        split: prod.splits sum.splits option.splits)
  then show ?thesis
    by (auto simp: flow_body_Inr validate_output_raw)
qed

lemma generateTimetable_Inr:
  "generateTimetable prompt input w = (Inr t, w') \<longleftrightarrow>
     length (subjects input) = length (teachersPerSubject input) \<and>
     GenerateTimetableInputSchema input \<and>
     prompt input w = (Response (Some (raw_output t)), w') \<and>
     length (schedule t) = length (periods t) \<and>
     (\<forall>cells \<in> set (schedule t). length cells = length (days t))"
  by (auto simp: generateTimetable_def generateTimetableFlow_Inr)

lemma generateTimetable_answering:
  "generateTimetable (answering (Response (Some (raw_output t)))) input w = (Inr t, w) \<longleftrightarrow>
     length (subjects input) = length (teachersPerSubject input) \<and>
     GenerateTimetableInputSchema input \<and>
     length (schedule t) = length (periods t) \<and>
     (\<forall>cells \<in> set (schedule t). length cells = length (days t))"
  by (simp add: generateTimetable_Inr answering_def)

lemma one_subject_valid:
  "nonnegative n \<Longrightarrow> isInteger n \<Longrightarrow> GenerateTimetableInputSchema (one_subject name n c)"
  by (simp add: GenerateTimetableInputSchema_def one_subject_def positive_def)

lemma one_subject_lengths:
  "length (subjects (one_subject name n c)) = length (teachersPerSubject (one_subject name n c))"
  by (simp add: one_subject_def)

lemma one_day_dimensions:
  "length (schedule (one_day ps cell)) = length (periods (one_day ps cell)) \<and>
   (\<forall>cells \<in> set (schedule (one_day ps cell)). length cells = length (days (one_day ps cell)))"
  by (auto simp: one_day_def)

lemma generateTimetable_one_day:
  "nonnegative n \<Longrightarrow> isInteger n \<Longrightarrow>
   generateTimetable (answering (Response (Some (raw_output (one_day ps cell)))))
     (one_subject name n c) w = (Inr (one_day ps cell), w)"
  using one_day_dimensions [of ps cell]
  by (simp add: generateTimetable_answering one_subject_valid one_subject_lengths)

subsection \<open>Dimensions of a returned timetable\<close>

text \<open>
  Claim C1. Whenever generation succeeds, the returned timetable has as many schedule rows
  as periods, and every row has as many cells as there are days. And an output of the model
  that breaks either dimension is never returned: the call fails.
\<close>

theorem generateTimetable_dimensions:
  "(\<forall>t w'. generateTimetable prompt input w = (Inr t, w') \<longrightarrow>
      length (schedule t) = length (periods t) \<and>
      (\<forall>i < length (schedule t). length (schedule t ! i) = length (days t))) \<and>
   (\<forall>out ds ps rows w'.
      prompt input w = (Response (Some out), w') \<and>
      output_days out = Some ds \<and> output_periods out = Some ps \<and>
      output_schedule out = Some rows \<and>
      (length rows \<noteq> length ps \<or> (\<exists>i < length rows. invalid_row (length ds) (rows ! i))) \<longrightarrow>
      isl (fst (generateTimetable prompt input w)))"
proof -
  have returned: "length (schedule t) = length (periods t) \<and>
      (\<forall>i < length (schedule t). length (schedule t ! i) = length (days t))"
    if "generateTimetable prompt input w = (Inr t, w')" for t w'
    using that by (simp add: generateTimetable_Inr)
  have rejected: "isl (fst (generateTimetable prompt input w))"
    if a: "prompt input w = (Response (Some out), w') \<and>
      output_days out = Some ds \<and> output_periods out = Some ps \<and>
      output_schedule out = Some rows \<and>
      (length rows \<noteq> length ps \<or> (\<exists>i < length rows. invalid_row (length ds) (rows ! i)))"
    for out ds ps rows w'
  proof (cases "generateTimetable prompt input w")
    case (Pair r w'')
    show ?thesis
    proof (cases r)
      case (Inl e)
      with Pair show ?thesis by simp
    next
      case (Inr t)
      with Pair have "generateTimetable prompt input w = (Inr t, w'')" by simp
      then have p: "prompt input w = (Response (Some (raw_output t)), w'')"
        and l: "length (schedule t) = length (periods t)"
        and c: "\<forall>cells \<in> set (schedule t). length cells = length (days t)"
        by (simp_all add: generateTimetable_Inr)
      from p a have o: "out = raw_output t" by simp
      with a have "ds = days t" "ps = periods t" "rows = map Row (schedule t)"
        by (simp_all add: raw_output_def)
      with a l c show ?thesis by auto
    qed
  qed
  from returned rejected show ?thesis by blast
qed


text \<open>
  The theorem at work: a reply of two periods and two rows of one day is returned with these
  dimensions, and a reply of two periods and one row makes the call fail.
\<close>

theorem generateTimetable_dimensions_witness:
  "generateTimetable
     (answering (Response (Some (raw_output (one_day [''Period 1'', ''Lunch''] (Some ''Math - Teacher 1''))))))
     (one_subject ''Math'' (Num 1) None) ()
     = (Inr (one_day [''Period 1'', ''Lunch''] (Some ''Math - Teacher 1'')), ()) \<and>
   length (schedule (one_day [''Period 1'', ''Lunch''] (Some ''Math - Teacher 1''))) = 2 \<and>
   length (periods (one_day [''Period 1'', ''Lunch''] (Some ''Math - Teacher 1''))) = 2 \<and>
   length (schedule (one_day [''Period 1'', ''Lunch''] (Some ''Math - Teacher 1'')) ! 1) = 1 \<and>
   length (days (one_day [''Period 1'', ''Lunch''] (Some ''Math - Teacher 1''))) = 1 \<and>
   isl (fst (generateTimetable
     (answering (Response (Some
        \<lparr>output_days = Some [''Monday''], output_periods = Some [''Period 1'', ''Lunch''],
         output_schedule = Some [Row [Some ''Math - Teacher 1'']]\<rparr>)))
     (one_subject ''Math'' (Num 1) None) ()))"
proof -
  let ?t = "one_day [''Period 1'', ''Lunch''] (Some ''Math - Teacher 1'')"
  let ?bad = "\<lparr>output_days = Some [''Monday''], output_periods = Some [''Period 1'', ''Lunch''],
         output_schedule = Some [Row [Some ''Math - Teacher 1'']]\<rparr>"
  have g: "generateTimetable (answering (Response (Some (raw_output ?t))))
      (one_subject ''Math'' (Num 1) None) () = (Inr ?t, ())"
    by (simp add: generateTimetable_one_day nonnegative_def)
  from generateTimetable_dimensions
         [of "answering (Response (Some (raw_output ?t)))" "one_subject ''Math'' (Num 1) None" "()"] g
  have d: "length (schedule ?t) = length (periods ?t) \<and>
      (\<forall>i < length (schedule ?t). length (schedule ?t ! i) = length (days ?t))"
    by blast
  have b: "answering (Response (Some ?bad)) (one_subject ''Math'' (Num 1) None) ()
       = (Response (Some ?bad), ()) \<and>
     output_days ?bad = Some [''Monday''] \<and> output_periods ?bad = Some [''Period 1'', ''Lunch''] \<and>
     output_schedule ?bad = Some [Row [Some ''Math - Teacher 1'']] \<and>
     (length [Row [Some ''Math - Teacher 1'']] \<noteq> length [''Period 1'', ''Lunch''] \<or>
      (\<exists>i < length [Row [Some ''Math - Teacher 1'']].
          invalid_row (length [''Monday'']) ([Row [Some ''Math - Teacher 1'']] ! i)))"
    by (simp add: answering_def)
  from generateTimetable_dimensions
         [of "answering (Response (Some ?bad))" "one_subject ''Math'' (Num 1) None" "()"] b
  have r: "isl (fst (generateTimetable (answering (Response (Some ?bad)))
      (one_subject ''Math'' (Num 1) None) ()))"
    by blast
  from g d r show ?thesis by (simp add: one_day_def)
qed

subsection \<open>Determinism\<close>

text \<open>
  Claim C2 says that two invocations with the same input give the same output. The output
  is what the model replies, and the model need not reply the same twice: with a model that
  answers a lesson at the first call and a free slot at the second, the two invocations,
  one after the other on the same input, return different timetables.
\<close>

theorem generateTimetable_not_deterministic:
  "fst (generateTimetable
         (alternating (raw_output (one_day [''Period 1''] (Some ''Math - Teacher 1'')))
                      (raw_output (one_day [''Period 1''] None)))
         (one_subject ''Math'' (Num 1) None) 0)
   \<noteq> fst (generateTimetable
         (alternating (raw_output (one_day [''Period 1''] (Some ''Math - Teacher 1'')))
                      (raw_output (one_day [''Period 1''] None)))
         (one_subject ''Math'' (Num 1) None)
         (snd (generateTimetable
            (alternating (raw_output (one_day [''Period 1''] (Some ''Math - Teacher 1'')))
                         (raw_output (one_day [''Period 1''] None)))
            (one_subject ''Math'' (Num 1) None) 0)))"
proof -
  let ?a = "one_day [''Period 1''] (Some ''Math - Teacher 1'')"
  let ?b = "one_day [''Period 1''] None"
  let ?input = "one_subject ''Math'' (Num 1) None"
  have v: "GenerateTimetableInputSchema ?input"
    by (simp add: one_subject_valid nonnegative_def)
  have first: "generateTimetable (alternating (raw_output ?a) (raw_output ?b)) ?input 0
      = (Inr ?a, Suc 0)"
    using one_day_dimensions [of "[''Period 1'']" "Some ''Math - Teacher 1''"] v
    by (simp add: generateTimetable_Inr alternating_def one_subject_lengths)
  have second: "generateTimetable (alternating (raw_output ?a) (raw_output ?b)) ?input (Suc 0)
      = (Inr ?b, Suc (Suc 0))"
    using one_day_dimensions [of "[''Period 1'']" None] v
    by (simp add: generateTimetable_Inr alternating_def one_subject_lengths)
  have "?a \<noteq> ?b" by (simp add: one_day_def)
  with first second show ?thesis by simp
qed

lemma generateTimetable_fst:
  "fst (generateTimetable prompt input w) =
     (if length (subjects input) \<noteq> length (teachersPerSubject input) then Inl SubjectTeacherMismatch
      else if \<not> GenerateTimetableInputSchema input then Inl InvalidInput
      else (case fst (prompt input w) of
              Throws \<Rightarrow> Inl PromptFailed
            | Response None \<Rightarrow> Inl NoOutput
            | Response (Some out) \<Rightarrow>
                (case validate_output out of
                   Inl e \<Rightarrow> Inl e
                 | Inr out' \<Rightarrow>
                     (case GenerateTimetableOutputSchema out' of
                        None \<Rightarrow> Inl InvalidOutput
                      | Some t \<Rightarrow> Inr t))))"
  by (simp add: generateTimetable_def generateTimetableFlow_def flow_body_def
      split: prod.splits prompt_result.splits option.splits sum.splits)

text \<open>
  Claim C2, amended. The code adds no choice of its own: two invocations with the same input
  to which the model gives the same answer have the same result, whatever the state of the
  world and whatever the model otherwise does.
\<close>

theorem generateTimetable_determined_by_reply:
  "fst (prompt input w1) = fst (prompt' input w2) \<Longrightarrow>
   fst (generateTimetable prompt input w1) = fst (generateTimetable prompt' input w2)"
  by (simp add: generateTimetable_fst)

text \<open>Two different models at two different counts that answer alike, and the equal results.\<close>

theorem generateTimetable_determined_by_reply_witness:
  "fst (alternating (raw_output (one_day [''Period 1''] None)) (raw_output (one_day [''Lunch''] None))
          (one_subject ''Math'' (Num 1) None) 0)
   = fst (alternating (raw_output (one_day [''Period 1''] None)) (raw_output (one_day [''Period 2''] None))
          (one_subject ''Math'' (Num 1) None) 2) \<and>
   fst (generateTimetable
          (alternating (raw_output (one_day [''Period 1''] None)) (raw_output (one_day [''Lunch''] None)))
          (one_subject ''Math'' (Num 1) None) 0)
   = fst (generateTimetable
          (alternating (raw_output (one_day [''Period 1''] None)) (raw_output (one_day [''Period 2''] None)))
          (one_subject ''Math'' (Num 1) None) 2)"
proof -
  have h: "fst (alternating (raw_output (one_day [''Period 1''] None)) (raw_output (one_day [''Lunch''] None))
          (one_subject ''Math'' (Num 1) None) 0)
   = fst (alternating (raw_output (one_day [''Period 1''] None)) (raw_output (one_day [''Period 2''] None))
          (one_subject ''Math'' (Num 1) None) 2)"
    by (simp add: alternating_def)
  from h generateTimetable_determined_by_reply
      [of "alternating (raw_output (one_day [''Period 1''] None)) (raw_output (one_day [''Lunch''] None))"
          "one_subject ''Math'' (Num 1) None" 0
          "alternating (raw_output (one_day [''Period 1''] None)) (raw_output (one_day [''Period 2''] None))"
          2]
  show ?thesis by blast
qed


lemma below_one_not_positive_integer:
  assumes "js_lt n (Num 1)"
  shows "\<not> (isInteger n \<and> positive n)"
proof (cases n)
  case (Num r)
  show ?thesis
  proof
    assume "isInteger n \<and> positive n"
    with Num assms have "\<exists>k::int. r = of_int k" and "0 < r" and "r < 1"
      by (simp_all add: positive_def)
    then obtain k :: int where "r = of_int k" and "0 < r" and "r < 1" by blast
    then have "0 < k" and "k < 1" by simp_all
    then show False by linarith
  qed
qed (use assms in \<open>simp_all add: positive_def\<close>)

subsection \<open>Subjects and teacher counts of different lengths\<close>

text \<open>
  Claim C3. When \<open>subjects\<close> and \<open>teachersPerSubject\<close> differ in length,
  \<open>generateTimetable\<close> fails with the mismatch error whatever the model would answer, and
  leaves the world as it was: the flow has not run and the model has not been asked. The
  page stops such an input before that, with a toast, and does not call the action.
\<close>

theorem mismatch_rejected_before_flow:
  "(length (subjects input) \<noteq> length (teachersPerSubject input) \<longrightarrow>
      generateTimetable prompt input w = (Inl SubjectTeacherMismatch, w)) \<and>
   (length (subjects (handleGenerateTimetable_input values))
      \<noteq> length (teachersPerSubject (handleGenerateTimetable_input values)) \<longrightarrow>
      handleGenerateTimetable values = InputErrorToast)"
  by (simp add: generateTimetable_def handleGenerateTimetable_def Let_def)

text \<open>Two subjects and one count, on the server and in the page.\<close>

theorem mismatch_rejected_before_flow_witness:
  "length (subjects \<lparr>workingDays = Num 5, classesPerDay = Num 4, subjects = [''Math'', ''Art''],
      teachersPerSubject = [Num 2], otherConstraints = None\<rparr>)
     \<noteq> length (teachersPerSubject \<lparr>workingDays = Num 5, classesPerDay = Num 4,
      subjects = [''Math'', ''Art''], teachersPerSubject = [Num 2], otherConstraints = None\<rparr>) \<and>
   generateTimetable
     (alternating (raw_output (one_day [''Period 1''] None)) (raw_output (one_day [''Period 1''] None)))
     \<lparr>workingDays = Num 5, classesPerDay = Num 4, subjects = [''Math'', ''Art''],
      teachersPerSubject = [Num 2], otherConstraints = None\<rparr> 0
     = (Inl SubjectTeacherMismatch, 0) \<and>
   handleGenerateTimetable
     \<lparr>form_workingDays = Num 5, form_classesPerDay = Num 4, form_subjects = ''Math, Art'',
      form_teachersPerSubject = ''2'', form_otherConstraints = None\<rparr> = InputErrorToast"
proof -
  let ?input = "\<lparr>workingDays = Num 5, classesPerDay = Num 4, subjects = [''Math'', ''Art''],
      teachersPerSubject = [Num 2], otherConstraints = None\<rparr>"
  let ?form = "\<lparr>form_workingDays = Num 5, form_classesPerDay = Num 4, form_subjects = ''Math, Art'',
      form_teachersPerSubject = ''2'', form_otherConstraints = None\<rparr>"
  have a: "length (subjects ?input) \<noteq> length (teachersPerSubject ?input)" by simp
  have b: "length (subjects (handleGenerateTimetable_input ?form))
      \<noteq> length (teachersPerSubject (handleGenerateTimetable_input ?form))"
    by code_simp
  from a b mismatch_rejected_before_flow
      [of ?input "alternating (raw_output (one_day [''Period 1''] None)) (raw_output (one_day [''Period 1''] None))"
          0 ?form]
  show ?thesis by blast
qed

subsection \<open>The number of days\<close>

text \<open>
  Claim C4 says that the returned \<open>days\<close> has \<open>workingDays\<close> entries. The flow compares the
  rows with \<open>periods\<close> and the cells with \<open>days\<close>, but \<open>days\<close> with nothing: for an input of
  five working days, a reply with the single day Monday passes every check and is returned.
\<close>

theorem days_not_checked_against_workingDays:
  "generateTimetable
     (answering (Response (Some (raw_output (one_day [''Period 1''] (Some ''Math - Teacher 1''))))))
     (one_subject ''Math'' (Num 1) None) ()
     = (Inr (one_day [''Period 1''] (Some ''Math - Teacher 1'')), ()) \<and>
   workingDays (one_subject ''Math'' (Num 1) None) = Num 5 \<and>
   length (days (one_day [''Period 1''] (Some ''Math - Teacher 1''))) = 1"
  by (simp add: generateTimetable_one_day nonnegative_def) (simp add: one_subject_def one_day_def)

subsection \<open>Working days below one\<close>

text \<open>
  Claim C5. An input with \<open>workingDays < 1\<close>, zero among them, never yields a timetable:
  \<open>generateTimetable\<close> fails before the model is asked, with the error of the input schema
  (or, when the two lists differ in length too, with the mismatch error, which is tested
  first). The form schema of the page refuses such a value as well.
\<close>

theorem workingDays_below_one_rejected:
  "(js_lt (workingDays input) (Num 1) \<longrightarrow>
      generateTimetable prompt input w =
        (Inl (if length (subjects input) \<noteq> length (teachersPerSubject input)
              then SubjectTeacherMismatch else InvalidInput), w)) \<and>
   (js_lt (form_workingDays values) (Num 1) \<longrightarrow> \<not> formSchema values)"
  using below_one_not_positive_integer [of "workingDays input"]
    below_one_not_positive_integer [of "form_workingDays values"]
  by (auto simp: generateTimetable_def generateTimetableFlow_def GenerateTimetableInputSchema_def
      formSchema_def)

text \<open>\<open>workingDays = 0\<close>, on the server and in the form.\<close>

theorem workingDays_below_one_rejected_witness:
  "js_lt (workingDays ((one_subject ''Math'' (Num 1) None)\<lparr>workingDays := Num 0\<rparr>)) (Num 1) \<and>
   generateTimetable
     (answering (Response (Some (raw_output (one_day [''Period 1''] (Some ''Math - Teacher 1''))))))
     ((one_subject ''Math'' (Num 1) None)\<lparr>workingDays := Num 0\<rparr>) ()
     = (Inl InvalidInput, ()) \<and>
   js_lt (form_workingDays \<lparr>form_workingDays = Num 0, form_classesPerDay = Num 4,
      form_subjects = ''Math'', form_teachersPerSubject = ''1'', form_otherConstraints = None\<rparr>) (Num 1) \<and>
   \<not> formSchema \<lparr>form_workingDays = Num 0, form_classesPerDay = Num 4,
      form_subjects = ''Math'', form_teachersPerSubject = ''1'', form_otherConstraints = None\<rparr>"
proof -
  let ?input = "(one_subject ''Math'' (Num 1) None)\<lparr>workingDays := Num 0\<rparr>"
  let ?form = "\<lparr>form_workingDays = Num 0, form_classesPerDay = Num 4,
      form_subjects = ''Math'', form_teachersPerSubject = ''1'', form_otherConstraints = None\<rparr>"
  have a: "js_lt (workingDays ?input) (Num 1)" by (simp add: one_subject_def)
  have b: "js_lt (form_workingDays ?form) (Num 1)" by simp
  have c: "length (subjects ?input) = length (teachersPerSubject ?input)"
    by (simp add: one_subject_def)
  from a b c workingDays_below_one_rejected
      [of ?input "answering (Response (Some (raw_output (one_day [''Period 1''] (Some ''Math - Teacher 1'')))))"
          "()" ?form]
  show ?thesis by simp
qed

subsection \<open>The output is returned as the model gave it\<close>

lemma all_rows_valid:
  "(\<forall>i < length rows. \<exists>cells. rows ! i = Row cells \<and> length cells = n) \<longleftrightarrow>
   \<not> list_ex (invalid_row n) rows"
proof -
  have "invalid_row n r \<longleftrightarrow> \<not> (\<exists>cells. r = Row cells \<and> length cells = n)" for r
    by (cases r) auto
  then have "\<not> list_ex (invalid_row n) rows \<longleftrightarrow>
      (\<forall>r \<in> set rows. \<exists>cells. r = Row cells \<and> length cells = n)"
    by (simp add: list_ex_iff)
  then show ?thesis
    by (simp add: all_set_conv_all_nth)
qed

text \<open>
  Claim C10. When the output of the model is not \<open>null\<close>, has its three fields, as many rows
  as periods, and every row an array of as many cells as days, then the function of the flow
  returns this very output, and the flow (on an input that its schema accepts) returns it
  typed: the same days, the same periods, the same rows. Nothing is added, removed or
  changed.
\<close>

theorem flow_returns_output_unchanged:
  assumes "prompt input w = (Response (Some out), w')"
    and "output_days out = Some ds"
    and "output_periods out = Some ps"
    and "output_schedule out = Some rows"
    and "length rows = length ps"
    and "\<forall>i < length rows. \<exists>cells. rows ! i = Row cells \<and> length cells = length ds"
  shows "flow_body prompt input w = (Inr out, w') \<and>
    (GenerateTimetableInputSchema input \<longrightarrow>
       (\<exists>t. generateTimetableFlow prompt input w = (Inr t, w') \<and> raw_output t = out \<and>
            days t = ds \<and> periods t = ps \<and> map Row (schedule t) = rows))"
proof -
  from assms(6) have valid: "\<not> list_ex (invalid_row (length ds)) rows"
    by (simp add: all_rows_valid)
  with assms have v: "validate_output out = Inr out"
    by (simp add: validate_output_Inr)
  with assms(1) have body: "flow_body prompt input w = (Inr out, w')"
    by (simp add: flow_body_Inr)
  from valid obtain grid where grid: "parse_rows rows = Some grid" "map Row grid = rows"
    using parse_rows_valid [of "length ds" rows] by blast
  let ?t = "\<lparr>days = ds, periods = ps, schedule = grid\<rparr>"
  from assms grid have schema: "GenerateTimetableOutputSchema out = Some ?t"
    by (simp add: GenerateTimetableOutputSchema_def)
  then have raw: "raw_output ?t = out"
    by (rule GenerateTimetableOutputSchema_raw)
  have "generateTimetableFlow prompt input w = (Inr ?t, w')" if "GenerateTimetableInputSchema input"
    using that body schema by (simp add: generateTimetableFlow_def)
  with raw grid body show ?thesis by auto
qed

text \<open>A reply of two days and one period, returned as it is.\<close>

theorem flow_returns_output_unchanged_witness:
  "flow_body
     (answering (Response (Some
        \<lparr>output_days = Some [''Monday'', ''Tuesday''], output_periods = Some [''Period 1''],
         output_schedule = Some [Row [Some ''Math - Teacher 1'', None]]\<rparr>)))
     (one_subject ''Math'' (Num 1) None) ()
   = (Inr \<lparr>output_days = Some [''Monday'', ''Tuesday''], output_periods = Some [''Period 1''],
           output_schedule = Some [Row [Some ''Math - Teacher 1'', None]]\<rparr>, ()) \<and>
   generateTimetableFlow
     (answering (Response (Some
        \<lparr>output_days = Some [''Monday'', ''Tuesday''], output_periods = Some [''Period 1''],
         output_schedule = Some [Row [Some ''Math - Teacher 1'', None]]\<rparr>)))
     (one_subject ''Math'' (Num 1) None) ()
   = (Inr \<lparr>days = [''Monday'', ''Tuesday''], periods = [''Period 1''],
           schedule = [[Some ''Math - Teacher 1'', None]]\<rparr>, ())"
proof -
  let ?out = "\<lparr>output_days = Some [''Monday'', ''Tuesday''], output_periods = Some [''Period 1''],
         output_schedule = Some [Row [Some ''Math - Teacher 1'', None]]\<rparr>"
  let ?input = "one_subject ''Math'' (Num 1) None"
  have a: "answering (Response (Some ?out)) ?input () = (Response (Some ?out), ())"
    by (simp add: answering_def)
  have b: "\<forall>i < length [Row [Some ''Math - Teacher 1'', None]].
      \<exists>cells. [Row [Some ''Math - Teacher 1'', None]] ! i = Row cells \<and>
        length cells = length [''Monday'', ''Tuesday'']"
    by simp
  have c: "GenerateTimetableInputSchema ?input"
    by (simp add: one_subject_valid nonnegative_def)
  from flow_returns_output_unchanged
      [of "answering (Response (Some ?out))" ?input "()" ?out "()"
          "[''Monday'', ''Tuesday'']" "[''Period 1'']" "[Row [Some ''Math - Teacher 1'', None]]",
       OF a _ _ _ _ b] c
  obtain t where "flow_body (answering (Response (Some ?out))) ?input () = (Inr ?out, ())"
    and "generateTimetableFlow (answering (Response (Some ?out))) ?input () = (Inr t, ())"
    and "days t = [''Monday'', ''Tuesday'']" and "periods t = [''Period 1'']"
    and "map Row (schedule t) = [Row [Some ''Math - Teacher 1'', None]]"
    by auto
  moreover from this have "t = \<lparr>days = [''Monday'', ''Tuesday''], periods = [''Period 1''],
           schedule = [[Some ''Math - Teacher 1'', None]]\<rparr>"
    by (cases t) auto
  ultimately show ?thesis by simp
qed

subsection \<open>Breaks asked for in the constraints\<close>

text \<open>
  Claim C6 says that with a break fixed at period index 3 and labelled Lunch, the output has
  \<open>periods[3] == "Lunch"\<close> and Lunch in every cell of row 3. The input of the code has no
  structured constraint, only the free text \<open>otherConstraints\<close>, which goes to the model
  unread. When the model ignores it, so does the output: here the text asks for the break,
  the model answers four teaching periods, and the answer is returned.
\<close>

theorem lunch_break_not_enforced:
  "generateTimetable
     (answering (Response (Some (raw_output
        (one_day [''Period 1'', ''Period 2'', ''Period 3'', ''Period 4''] (Some ''Math - Teacher 1''))))))
     (one_subject ''Math'' (Num 1) (Some ''Lunch break at period index 3'')) ()
   = (Inr (one_day [''Period 1'', ''Period 2'', ''Period 3'', ''Period 4''] (Some ''Math - Teacher 1'')), ()) \<and>
   periods (one_day [''Period 1'', ''Period 2'', ''Period 3'', ''Period 4''] (Some ''Math - Teacher 1'')) ! 3
     \<noteq> ''Lunch'' \<and>
   schedule (one_day [''Period 1'', ''Period 2'', ''Period 3'', ''Period 4''] (Some ''Math - Teacher 1'')) ! 3 ! 0
     \<noteq> Some ''Lunch''"
  by (simp add: generateTimetable_one_day nonnegative_def) (simp add: one_day_def)

text \<open>
  Claim C6, amended. The break is where the model puts it: when generation succeeds and the
  reply of the model has Lunch as its period 3 and in every cell of its row 3, then the
  output has \<open>periods[3] == "Lunch"\<close> and \<open>schedule[3][d] == "Lunch"\<close> for every day \<open>d\<close>.
\<close>

theorem lunch_break_as_replied:
  assumes "generateTimetable prompt input w = (Inr t, w')"
    and "prompt input w = (Response (Some out), w'')"
    and "output_periods out = Some ps"
    and "output_schedule out = Some rows"
    and "3 < length ps"
    and "ps ! 3 = ''Lunch''"
    and "rows ! 3 = Row cells"
    and "\<forall>c \<in> set cells. c = Some ''Lunch''"
  shows "periods t ! 3 = ''Lunch'' \<and> (\<forall>d < length (days t). schedule t ! 3 ! d = Some ''Lunch'')"
proof -
  from assms(1) have p: "prompt input w = (Response (Some (raw_output t)), w')"
    and l: "length (schedule t) = length (periods t)"
    and c: "\<forall>cells \<in> set (schedule t). length cells = length (days t)"
    by (simp_all add: generateTimetable_Inr)
  from p assms(2) have "out = raw_output t" by simp
  with assms(3,4) have ps: "ps = periods t" and rows: "rows = map Row (schedule t)"
    by (simp_all add: raw_output_def)
  from ps l assms(5) have three: "3 < length (schedule t)" by simp
  with rows assms(7) have cells: "schedule t ! 3 = cells" by simp
  from three c have "length (schedule t ! 3) = length (days t)" by simp
  with cells assms(8) have "\<forall>d < length (days t). schedule t ! 3 ! d = Some ''Lunch''"
    by simp
  with ps assms(6) show ?thesis by simp
qed


text \<open>A reply with Lunch as fourth period, asked for in the constraints, and what comes back.\<close>

theorem lunch_break_as_replied_witness:
  "generateTimetable
     (answering (Response (Some (raw_output
        \<lparr>days = [''Monday''], periods = [''Period 1'', ''Period 2'', ''Period 3'', ''Lunch''],
         schedule = [[Some ''Math - Teacher 1''], [None], [Some ''Math - Teacher 1''], [Some ''Lunch'']]\<rparr>))))
     (one_subject ''Math'' (Num 1) (Some ''Lunch break at period index 3'')) ()
   = (Inr \<lparr>days = [''Monday''], periods = [''Period 1'', ''Period 2'', ''Period 3'', ''Lunch''],
         schedule = [[Some ''Math - Teacher 1''], [None], [Some ''Math - Teacher 1''], [Some ''Lunch'']]\<rparr>, ()) \<and>
   periods \<lparr>days = [''Monday''], periods = [''Period 1'', ''Period 2'', ''Period 3'', ''Lunch''],
         schedule = [[Some ''Math - Teacher 1''], [None], [Some ''Math - Teacher 1''], [Some ''Lunch'']]\<rparr> ! 3
     = ''Lunch'' \<and>
   schedule \<lparr>days = [''Monday''], periods = [''Period 1'', ''Period 2'', ''Period 3'', ''Lunch''],
         schedule = [[Some ''Math - Teacher 1''], [None], [Some ''Math - Teacher 1''], [Some ''Lunch'']]\<rparr> ! 3 ! 0
     = Some ''Lunch''"
proof -
  let ?t = "\<lparr>days = [''Monday''], periods = [''Period 1'', ''Period 2'', ''Period 3'', ''Lunch''],
         schedule = [[Some ''Math - Teacher 1''], [None], [Some ''Math - Teacher 1''], [Some ''Lunch'']]\<rparr>"
  let ?input = "one_subject ''Math'' (Num 1) (Some ''Lunch break at period index 3'')"
  let ?prompt = "answering (Response (Some (raw_output ?t))) :: unit prompt"
  have g: "generateTimetable ?prompt ?input () = (Inr ?t, ())"
    by (simp add: generateTimetable_answering one_subject_valid one_subject_lengths nonnegative_def)
  have p: "?prompt ?input () = (Response (Some (raw_output ?t)), ())"
    by (simp add: answering_def)
  have "periods ?t ! 3 = ''Lunch'' \<and> (\<forall>d < length (days ?t). schedule ?t ! 3 ! d = Some ''Lunch'')"
    by (rule lunch_break_as_replied
          [OF g p, of "periods ?t" "map Row (schedule ?t)" "[Some ''Lunch'']"])
       (simp_all add: raw_output_def)
  with g show ?thesis by simp
qed

subsection \<open>A subject without teachers\<close>

text \<open>
  Claim C7 says that with \<open>teachersPerSubject[i] == 0\<close> a schedule is still returned and
  subject \<open>i\<close> is in none of its cells. Neither is the code's doing. For the one subject X
  with no teacher, a reply that schedules X is returned with X in its cell; and a model that
  gives no output makes the call fail.
\<close>

theorem zero_teachers_subject_scheduled:
  "generateTimetable
     (answering (Response (Some (raw_output (one_day [''Period 1''] (Some ''X - Teacher 1''))))))
     (one_subject ''X'' (Num 0) None) ()
   = (Inr (one_day [''Period 1''] (Some ''X - Teacher 1'')), ()) \<and>
   teachersPerSubject (one_subject ''X'' (Num 0) None) ! 0 = Num 0 \<and>
   schedule (one_day [''Period 1''] (Some ''X - Teacher 1'')) ! 0 ! 0 = Some ''X - Teacher 1'' \<and>
   prefix (subjects (one_subject ''X'' (Num 0) None) ! 0) ''X - Teacher 1'' \<and>
   generateTimetable (answering (Response None)) (one_subject ''X'' (Num 0) None) ()
   = (Inl NoOutput, ())"
proof -
  have "generateTimetable
     (answering (Response (Some (raw_output (one_day [''Period 1''] (Some ''X - Teacher 1''))))))
     (one_subject ''X'' (Num 0) None) ()
   = (Inr (one_day [''Period 1''] (Some ''X - Teacher 1'')), ())"
    by (simp add: generateTimetable_one_day nonnegative_def)
  moreover have "GenerateTimetableInputSchema (one_subject ''X'' (Num 0) None)"
    by (simp add: one_subject_valid nonnegative_def)
  then have "generateTimetable (answering (Response None)) (one_subject ''X'' (Num 0) None) ()
      = (Inl NoOutput, ())"
    by (simp add: generateTimetable_def generateTimetableFlow_def flow_body_def answering_def
        one_subject_lengths)
  ultimately show ?thesis
    by (simp add: one_subject_def one_day_def)
qed

lemma zero_count_valid:
  assumes "GenerateTimetableInputSchema input"
  shows "GenerateTimetableInputSchema
      (input\<lparr>teachersPerSubject := (teachersPerSubject input)[i := Num 0]\<rparr>)"
proof -
  let ?P = "\<lambda>n. isInteger n \<and> nonnegative n"
  from assms have "list_all ?P (teachersPerSubject input)"
    by (simp add: GenerateTimetableInputSchema_def)
  moreover have "?P (Num 0)" by (simp add: nonnegative_def)
  ultimately have "list_all ?P ((teachersPerSubject input)[i := Num 0])"
    using set_update_subset_insert [of "teachersPerSubject input" i "Num 0"]
    by (auto simp: list_all_iff)
  with assms show ?thesis
    by (simp add: GenerateTimetableInputSchema_def)
qed

lemma validate_output_ill_dimensioned:
  assumes "output_days out = None \<or> output_periods out = None \<or> output_schedule out = None \<or>
      (\<exists>ds ps rows. output_days out = Some ds \<and> output_periods out = Some ps \<and>
         output_schedule out = Some rows \<and>
         (length rows \<noteq> length ps \<or> (\<exists>j < length rows. invalid_row (length ds) (rows ! j))))"
  shows "\<exists>e. validate_output out = Inl e"
proof (cases "validate_output out")
  case (Inl e)
  then show ?thesis by blast
next
  case (Inr out')
  then obtain ds ps rows where f: "output_days out = Some ds" "output_periods out = Some ps"
      "output_schedule out = Some rows" "length rows = length ps"
      "\<not> list_ex (invalid_row (length ds)) rows"
    by (auto simp: validate_output_Inr)
  from f(5) have "\<forall>j < length rows. \<not> invalid_row (length ds) (rows ! j)"
    by (simp add: list_ex_iff)
  with f assms show ?thesis by auto
qed

text \<open>
  Claim C7, amended. A count of zero is not an error by itself. Take an input that passes
  the checks and set the count of subject \<open>i\<close> to zero. Generation then returns a schedule
  exactly when the model replies an output of the right dimensions, and the schedule
  returned is that reply, whatever its cells hold. It fails with the error of the missing
  output when the model gives no output, with the error of the prompt when the call of the
  model throws, and with an error when the reply lacks a field, has not as many rows as
  periods, or has a row that is not an array of as many cells as days.
\<close>

theorem zero_teachers_not_an_error:
  assumes "GenerateTimetableInputSchema input"
    and "length (subjects input) = length (teachersPerSubject input)"
    and "i < length (teachersPerSubject input)"
    and "input0 = input\<lparr>teachersPerSubject := (teachersPerSubject input)[i := Num 0]\<rparr>"
  shows "teachersPerSubject input0 ! i = Num 0 \<and>
    (generateTimetable prompt input0 w = (Inr t, w') \<longleftrightarrow>
       prompt input0 w = (Response (Some (raw_output t)), w') \<and>
       length (schedule t) = length (periods t) \<and>
       (\<forall>cells \<in> set (schedule t). length cells = length (days t))) \<and>
    (fst (prompt input0 w) = Response None \<longrightarrow>
       fst (generateTimetable prompt input0 w) = Inl NoOutput) \<and>
    (fst (prompt input0 w) = Throws \<longrightarrow>
       fst (generateTimetable prompt input0 w) = Inl PromptFailed) \<and>
    (\<forall>out. fst (prompt input0 w) = Response (Some out) \<and>
       (output_days out = None \<or> output_periods out = None \<or> output_schedule out = None \<or>
        (\<exists>ds ps rows. output_days out = Some ds \<and> output_periods out = Some ps \<and>
           output_schedule out = Some rows \<and>
           (length rows \<noteq> length ps \<or>
            (\<exists>j < length rows. invalid_row (length ds) (rows ! j))))) \<longrightarrow>
       isl (fst (generateTimetable prompt input0 w)))"
proof -
  from assms(1,4) have v: "GenerateTimetableInputSchema input0"
    by (simp add: zero_count_valid)
  from assms(2,4) have l: "length (subjects input0) = length (teachersPerSubject input0)"
    by simp
  from assms(3,4) have z: "teachersPerSubject input0 ! i = Num 0" by simp
  have ok: "generateTimetable prompt input0 w = (Inr t, w') \<longleftrightarrow>
       prompt input0 w = (Response (Some (raw_output t)), w') \<and>
       length (schedule t) = length (periods t) \<and>
       (\<forall>cells \<in> set (schedule t). length cells = length (days t))"
    using v l by (simp add: generateTimetable_Inr)
  have none: "fst (generateTimetable prompt input0 w) = Inl NoOutput"
    if "fst (prompt input0 w) = Response None"
    using that v l by (simp add: generateTimetable_fst)
  have throws: "fst (generateTimetable prompt input0 w) = Inl PromptFailed"
    if "fst (prompt input0 w) = Throws"
    using that v l by (simp add: generateTimetable_fst)
  have bad: "isl (fst (generateTimetable prompt input0 w))"
    if "fst (prompt input0 w) = Response (Some out) \<and>
       (output_days out = None \<or> output_periods out = None \<or> output_schedule out = None \<or>
        (\<exists>ds ps rows. output_days out = Some ds \<and> output_periods out = Some ps \<and>
           output_schedule out = Some rows \<and>
           (length rows \<noteq> length ps \<or>
            (\<exists>j < length rows. invalid_row (length ds) (rows ! j)))))" for out
  proof -
    from that obtain e where "validate_output out = Inl e"
      using validate_output_ill_dimensioned [of out] by blast
    with that v l show ?thesis by (simp add: generateTimetable_fst)
  qed
  from z ok none throws bad show ?thesis by blast
qed


text \<open>
  The count of X set from two to zero: a reply returned, no output, a call that throws, a
  reply of two periods and one row, and a reply without periods.
\<close>

theorem zero_teachers_not_an_error_witness:
  "generateTimetable
     (answering (Response (Some (raw_output (one_day [''Period 1''] (Some ''X - Teacher 1''))))))
     (one_subject ''X'' (Num 0) None) ()
   = (Inr (one_day [''Period 1''] (Some ''X - Teacher 1'')), ()) \<and>
   fst (generateTimetable (answering (Response None)) (one_subject ''X'' (Num 0) None) ())
   = Inl NoOutput \<and>
   fst (generateTimetable (answering Throws) (one_subject ''X'' (Num 0) None) ())
   = Inl PromptFailed \<and>
   isl (fst (generateTimetable
     (answering (Response (Some
        \<lparr>output_days = Some [''Monday''], output_periods = Some [''Period 1'', ''Period 2''],
         output_schedule = Some [Row [Some ''X - Teacher 1'']]\<rparr>)))
     (one_subject ''X'' (Num 0) None) ())) \<and>
   isl (fst (generateTimetable
     (answering (Response (Some
        \<lparr>output_days = Some [''Monday''], output_periods = None,
         output_schedule = Some [Row [Some ''X - Teacher 1'']]\<rparr>)))
     (one_subject ''X'' (Num 0) None) ()))"
proof -
  let ?input = "one_subject ''X'' (Num 2) None"
  let ?input0 = "one_subject ''X'' (Num 0) None"
  let ?t = "one_day [''Period 1''] (Some ''X - Teacher 1'')"
  let ?rows = "\<lparr>output_days = Some [''Monday''], output_periods = Some [''Period 1'', ''Period 2''],
         output_schedule = Some [Row [Some ''X - Teacher 1'']]\<rparr>"
  let ?missing = "\<lparr>output_days = Some [''Monday''], output_periods = None,
         output_schedule = Some [Row [Some ''X - Teacher 1'']]\<rparr>"
  have a: "GenerateTimetableInputSchema ?input"
    by (simp add: one_subject_valid nonnegative_def)
  have b: "length (subjects ?input) = length (teachersPerSubject ?input)"
    by (rule one_subject_lengths)
  have c: "(0::nat) < length (teachersPerSubject ?input)"
    by (simp add: one_subject_def)
  have d: "?input0 = ?input\<lparr>teachersPerSubject := (teachersPerSubject ?input)[0 := Num 0]\<rparr>"
    by (simp add: one_subject_def)
  note inst = zero_teachers_not_an_error [OF a b c d]
  have "(answering (Response (Some (raw_output ?t))) :: unit prompt) ?input0 ()
      = (Response (Some (raw_output ?t)), ())"
    by (simp add: answering_def)
  with inst [of "answering (Response (Some (raw_output ?t)))" "()" ?t "()"]
    one_day_dimensions [of "[''Period 1'']" "Some ''X - Teacher 1''"]
  have 1: "generateTimetable (answering (Response (Some (raw_output ?t)))) ?input0 () = (Inr ?t, ())"
    by blast
  have "fst ((answering (Response None) :: unit prompt) ?input0 ()) = Response None"
    by (simp add: answering_def)
  with inst [of "answering (Response None)" "()" ?t "()"]
  have 2: "fst (generateTimetable (answering (Response None)) ?input0 ()) = Inl NoOutput"
    by blast
  have "fst ((answering Throws :: unit prompt) ?input0 ()) = Throws"
    by (simp add: answering_def)
  with inst [of "answering Throws" "()" ?t "()"]
  have 3: "fst (generateTimetable (answering Throws) ?input0 ()) = Inl PromptFailed"
    by blast
  have "fst ((answering (Response (Some ?rows)) :: unit prompt) ?input0 ()) = Response (Some ?rows) \<and>
      (output_days ?rows = None \<or> output_periods ?rows = None \<or> output_schedule ?rows = None \<or>
        (\<exists>ds ps rows. output_days ?rows = Some ds \<and> output_periods ?rows = Some ps \<and>
           output_schedule ?rows = Some rows \<and>
           (length rows \<noteq> length ps \<or>
            (\<exists>j < length rows. invalid_row (length ds) (rows ! j)))))"
    by (simp add: answering_def)
  with inst [of "answering (Response (Some ?rows))" "()" ?t "()"]
  have 4: "isl (fst (generateTimetable (answering (Response (Some ?rows))) ?input0 ()))"
    by blast
  have "fst ((answering (Response (Some ?missing)) :: unit prompt) ?input0 ()) = Response (Some ?missing) \<and>
      (output_days ?missing = None \<or> output_periods ?missing = None \<or> output_schedule ?missing = None \<or>
        (\<exists>ds ps rows. output_days ?missing = Some ds \<and> output_periods ?missing = Some ps \<and>
           output_schedule ?missing = Some rows \<and>
           (length rows \<noteq> length ps \<or>
            (\<exists>j < length rows. invalid_row (length ds) (rows ! j)))))"
    by (simp add: answering_def)
  with inst [of "answering (Response (Some ?missing))" "()" ?t "()"]
  have 5: "isl (fst (generateTimetable (answering (Response (Some ?missing))) ?input0 ()))"
    by blast
  from 1 2 3 4 5 show ?thesis by blast
qed

section \<open>Properties of the text export\<close>

lemma padEnd_one_char:
  "padEnd n [c] s = s @ replicate (n - length s) c"
proof -
  have "concat (replicate k [c]) = replicate k c" for k
    by (induction k) auto
  then show ?thesis
    by (simp add: padEnd_def)
qed

lemma padEnd_dashes: "padEnd n ''-'' [] = replicate n CHR ''-''"
  by (simp add: padEnd_one_char)

lemma fold_append_day:
  "fold (append_day data p) ds acc =
     acc @ concat (map (\<lambda>d. padEnd 20 '' '' (or_Free (schedule_at data p d))) ds)"
  by (induction ds arbitrary: acc) (simp_all add: append_day_def)

lemma fold_append_period:
  "fold (append_period data) rows acc =
     acc @ concat (map (\<lambda>(period, p).
       padEnd 15 '' '' period
       @ concat (map (\<lambda>d. padEnd 20 '' '' (or_Free (schedule_at data p d))) [0..<length (days data)])
       @ newline) rows)"
  by (induction rows arbitrary: acc)
     (simp_all add: append_period_def fold_append_day split: prod.splits)

lemma zip_indices: "zip xs [0..<length xs] = map (\<lambda>i. (xs ! i, i)) [0..<length xs]"
  by (rule nth_equalityI) simp_all

lemma convertToPlainText_lines:
  "convertToPlainText data =
     ''Timetable'' @ newline @ newline
     @ padEnd 15 '' '' ''Period'' @ concat (map (padEnd 20 '' '') (days data)) @ newline
     @ replicate 15 CHR ''-'' @ concat (map (\<lambda>day. replicate 20 CHR ''-'') (days data)) @ newline
     @ concat (map (schedule_line data) [0..<length (periods data)])"
proof -
  have "schedule_line data = (\<lambda>p. padEnd 15 '' '' (periods data ! p)
      @ concat (map (\<lambda>d. padEnd 20 '' '' (or_Free (schedule_at data p d))) [0..<length (days data)])
      @ newline)"
    by (rule ext) (simp add: schedule_line_def comp_def)
  then show ?thesis
    by (simp add: convertToPlainText_def fold_append_period zip_indices padEnd_dashes comp_def)
qed

text \<open>
  When no day, period or cell holds a line feed, the export has four line feeds before the
  schedule and then one for each period.
\<close>

lemma count_list_concat_map:
  "count_list (concat (map f xs)) c = sum_list (map (\<lambda>x. count_list (f x) c) xs)"
  by (induction xs) simp_all

lemma count_list_none: "c \<notin> set xs \<Longrightarrow> count_list xs c = 0"
  by (simp add: count_list_0_iff)

lemma padEnd_space_set: "set (padEnd n '' '' s) \<subseteq> insert CHR '' '' (set s)"
  by (auto simp: padEnd_one_char)

lemma or_Free_no_line_feed:
  assumes "\<forall>r \<in> set (schedule data). \<forall>s. Some s \<in> set r \<longrightarrow> CHR 0x0A \<notin> set s"
  shows "CHR 0x0A \<notin> set (or_Free (schedule_at data p d))"
proof (cases "schedule_at data p d")
  case None
  then show ?thesis by (simp add: or_Free_def)
next
  case (Some s)
  then have "p < length (schedule data)" and "d < length (schedule data ! p)"
    and "schedule data ! p ! d = Some s"
    by (auto simp: schedule_at_def Let_def split: if_splits)
  then have "schedule data ! p \<in> set (schedule data)" and "Some s \<in> set (schedule data ! p)"
    by (auto simp: in_set_conv_nth)
  with assms have "CHR 0x0A \<notin> set s" by blast
  with Some show ?thesis by (simp add: or_Free_def)
qed

lemma convertToPlainText_line_feeds:
  assumes "\<forall>day \<in> set (days data). CHR 0x0A \<notin> set day"
    and "\<forall>period \<in> set (periods data). CHR 0x0A \<notin> set period"
    and "\<forall>r \<in> set (schedule data). \<forall>s. Some s \<in> set r \<longrightarrow> CHR 0x0A \<notin> set s"
  shows "count_list (convertToPlainText data) CHR 0x0A = 4 + length (periods data)"
proof -
  have pad: "count_list (padEnd n '' '' s) CHR 0x0A = 0" if "CHR 0x0A \<notin> set s" for n s
    using that padEnd_space_set [of n s] by (intro count_list_none) auto
  have header: "count_list (concat (map (padEnd 20 '' '') (days data))) CHR 0x0A = 0"
    using assms(1) by (simp add: count_list_concat_map pad)
  have dashes: "count_list (concat (map (\<lambda>day. replicate 20 CHR ''-'') (days data))) CHR 0x0A = 0"
    by (simp add: count_list_concat_map count_list_none)
  have line: "count_list (schedule_line data p) CHR 0x0A = 1" if "p < length (periods data)" for p
  proof -
    from that assms(2) have "CHR 0x0A \<notin> set (periods data ! p)" by simp
    then show ?thesis
      using or_Free_no_line_feed [OF assms(3)]
      by (simp add: schedule_line_def newline_def count_list_concat_map pad comp_def)
  qed
  then have "map (\<lambda>p. count_list (schedule_line data p) CHR 0x0A) [0..<length (periods data)]
      = replicate (length (periods data)) 1"
    by (intro nth_equalityI) simp_all
  then have lines: "count_list (concat (map (schedule_line data) [0..<length (periods data)])) CHR 0x0A
      = length (periods data)"
    by (simp add: count_list_concat_map sum_list_replicate)
  have "count_list (padEnd 15 '' '' ''Period'') CHR 0x0A = 0"
    by (rule pad) simp
  with header dashes lines show ?thesis
    by (simp add: convertToPlainText_lines newline_def count_list_none)
qed

lemma js_split_at_separator:
  "c \<notin> set s \<Longrightarrow> js_split c (s @ c # rest) = s # js_split c rest"
  by (induction s) auto

lemma js_split_terminated_lines:
  "\<forall>l \<in> set ls. c \<notin> set l \<Longrightarrow> js_split c (concat (map (\<lambda>l. l @ [c]) ls)) = ls @ [[]]"
  by (induction ls) (simp_all add: js_split_at_separator)

lemma padEnd_no_line_feed:
  "CHR 0x0A \<notin> set s \<Longrightarrow> CHR 0x0A \<notin> set (padEnd n '' '' s)"
  using padEnd_space_set [of n s] by auto

subsection \<open>The lines of the text\<close>

text \<open>
  Claim C9 says that for every timetable the export has exactly one schedule line for each
  entry of \<open>periods\<close>, after the title, header and separator lines. The labels are written
  as they are, so a label that holds a line feed spreads over two lines: for the single
  period whose label is A, a line feed, B, the text has two lines after the separator.
\<close>

theorem convertToPlainText_label_with_line_feed:
  "js_split CHR 0x0A
     (convertToPlainText \<lparr>days = [''Monday''], periods = [[CHR ''A'', CHR 0x0A, CHR ''B'']],
        schedule = [[None]]\<rparr>)
   = [''Timetable'', [], ''Period         Monday              '',
      ''-----------------------------------'', ''A'', ''B            Free                '', []] \<and>
   length (periods \<lparr>days = [''Monday''], periods = [[CHR ''A'', CHR 0x0A, CHR ''B'']],
        schedule = [[None]]\<rparr>) = 1"
  by code_simp

text \<open>
  Claim C9, amended. For every timetable whose day names, period labels and cells hold no
  line feed, the lines of the text are the title, an empty line, the header and the
  separator, then exactly one line for each entry of \<open>periods\<close>, and nothing after the last
  line feed. The line of period \<open>p\<close> is its label padded to 15 and then exactly one cell,
  padded to 20, for each entry of \<open>days\<close>; the cell of day \<open>d\<close> is \<open>Free\<close> when
  \<open>schedule[p][d]\<close> is \<open>undefined\<close> (no such row, or no such cell in it), \<open>null\<close> or the
  empty string, and the string of the schedule otherwise.
\<close>

theorem convertToPlainText_text_lines:
  assumes "\<forall>day \<in> set (days data). CHR 0x0A \<notin> set day"
    and "\<forall>period \<in> set (periods data). CHR 0x0A \<notin> set period"
    and "\<forall>r \<in> set (schedule data). \<forall>s. Some s \<in> set r \<longrightarrow> CHR 0x0A \<notin> set s"
  shows "\<exists>lines.
     js_split CHR 0x0A (convertToPlainText data) =
       [''Timetable'', [],
        padEnd 15 '' '' ''Period'' @ concat (map (padEnd 20 '' '') (days data)),
        replicate 15 CHR ''-'' @ concat (map (\<lambda>day. replicate 20 CHR ''-'') (days data))]
       @ lines @ [[]] \<and>
     length lines = length (periods data) \<and>
     (\<forall>p < length (periods data). \<exists>cells.
        lines ! p = padEnd 15 '' '' (periods data ! p) @ concat (map (padEnd 20 '' '') cells) \<and>
        length cells = length (days data) \<and>
        (\<forall>d < length (days data).
           cells ! d =
             (if p < length (schedule data) \<and> d < length (schedule data ! p)
              then (case schedule data ! p ! d of
                      None \<Rightarrow> ''Free''
                    | Some s \<Rightarrow> if s = [] then ''Free'' else s)
              else ''Free'')))"
proof -
  let ?lf = "CHR 0x0A"
  let ?cells = "\<lambda>p. map (\<lambda>d. or_Free (schedule_at data p d)) [0..<length (days data)]"
  let ?body = "\<lambda>p. padEnd 15 '' '' (periods data ! p) @ concat (map (padEnd 20 '' '') (?cells p))"
  let ?lines = "map ?body [0..<length (periods data)]"
  let ?header = "padEnd 15 '' '' ''Period'' @ concat (map (padEnd 20 '' '') (days data))"
  let ?dashes = "replicate 15 CHR ''-'' @ concat (map (\<lambda>day. replicate 20 CHR ''-'') (days data))"
  have cell: "or_Free (schedule_at data p d) =
      (if p < length (schedule data) \<and> d < length (schedule data ! p)
       then (case schedule data ! p ! d of None \<Rightarrow> ''Free'' | Some s \<Rightarrow> if s = [] then ''Free'' else s)
       else ''Free'')" for p d
    by (simp add: or_Free_def schedule_at_def Let_def)
  have header: "?lf \<notin> set ?header"
    using assms(1) by (auto dest: padEnd_no_line_feed simp: padEnd_one_char)
  have dashes: "?lf \<notin> set ?dashes"
    by auto
  have body: "?lf \<notin> set (?body p)" if "p < length (periods data)" for p
  proof -
    from that assms(2) have "?lf \<notin> set (padEnd 15 '' '' (periods data ! p))"
      by (intro padEnd_no_line_feed) simp
    moreover have "?lf \<notin> set (padEnd 20 '' '' (or_Free (schedule_at data p d)))" for d
      by (intro padEnd_no_line_feed or_Free_no_line_feed [OF assms(3)])
    ultimately show ?thesis by auto
  qed
  then have lines: "\<forall>l \<in> set ?lines. ?lf \<notin> set l" by auto
  have sl: "schedule_line data = (\<lambda>p. ?body p @ [?lf])"
    by (rule ext) (simp add: schedule_line_def newline_def)
  have c: "concat (map (schedule_line data) [0..<length (periods data)])
      = concat (map (\<lambda>l. l @ [?lf]) ?lines)"
    unfolding sl by (simp add: comp_def)
  have "convertToPlainText data =
      ''Timetable'' @ ?lf # [] @ ?lf # ?header @ ?lf # ?dashes @ ?lf # concat (map (\<lambda>l. l @ [?lf]) ?lines)"
    unfolding convertToPlainText_lines c by (simp add: newline_def)
  moreover have "js_split ?lf (''Timetable'' @ ?lf # [] @ ?lf # ?header @ ?lf # ?dashes @ ?lf
      # concat (map (\<lambda>l. l @ [?lf]) ?lines)) = ''Timetable'' # [] # ?header # ?dashes # ?lines @ [[]]"
  proof -
    have title: "?lf \<notin> set ''Timetable''" and empty: "?lf \<notin> set []"
      by simp_all
    show ?thesis
      by (simp only: js_split_at_separator [OF title] js_split_at_separator [OF empty]
          js_split_at_separator [OF header] js_split_at_separator [OF dashes]
          js_split_terminated_lines [OF lines])
  qed
  ultimately have split: "js_split ?lf (convertToPlainText data) =
      [''Timetable'', [], ?header, ?dashes] @ ?lines @ [[]]"
    by simp
  have "\<exists>cells.
        ?lines ! p = padEnd 15 '' '' (periods data ! p) @ concat (map (padEnd 20 '' '') cells) \<and>
        length cells = length (days data) \<and>
        (\<forall>d < length (days data).
           cells ! d =
             (if p < length (schedule data) \<and> d < length (schedule data ! p)
              then (case schedule data ! p ! d of
                      None \<Rightarrow> ''Free''
                    | Some s \<Rightarrow> if s = [] then ''Free'' else s)
              else ''Free''))" if "p < length (periods data)" for p
  proof -
    from that have "?lines ! p = ?body p" by simp
    moreover have "length (?cells p) = length (days data)" by simp
    moreover have "\<forall>d < length (days data).
           ?cells p ! d =
             (if p < length (schedule data) \<and> d < length (schedule data ! p)
              then (case schedule data ! p ! d of
                      None \<Rightarrow> ''Free''
                    | Some s \<Rightarrow> if s = [] then ''Free'' else s)
              else ''Free'')"
      by (simp add: cell)
    ultimately show ?thesis by blast
  qed
  with split show ?thesis
    by (intro exI [of _ ?lines]) simp
qed


text \<open>Two days and two periods, with a \<open>null\<close> cell and a missing row: the lines of the text.\<close>

theorem convertToPlainText_text_lines_witness:
  "CHR 0x0A \<notin> set ''Monday'' \<and> CHR 0x0A \<notin> set ''Tuesday'' \<and>
   CHR 0x0A \<notin> set ''Period 1'' \<and> CHR 0x0A \<notin> set ''Lunch'' \<and>
   CHR 0x0A \<notin> set ''Math - Teacher 1'' \<and>
   js_split CHR 0x0A
     (convertToPlainText \<lparr>days = [''Monday'', ''Tuesday''], periods = [''Period 1'', ''Lunch''],
        schedule = [[Some ''Math - Teacher 1'', None]]\<rparr>)
   = [''Timetable'', [],
      ''Period         Monday              Tuesday             '',
      ''-------------------------------------------------------'',
      ''Period 1       Math - Teacher 1    Free                '',
      ''Lunch          Free                Free                '',
      []]"
proof -
  let ?data = "\<lparr>days = [''Monday'', ''Tuesday''], periods = [''Period 1'', ''Lunch''],
      schedule = [[Some ''Math - Teacher 1'', None]]\<rparr>"
  have h: "CHR 0x0A \<notin> set ''Monday''" "CHR 0x0A \<notin> set ''Tuesday''"
    "CHR 0x0A \<notin> set ''Period 1''" "CHR 0x0A \<notin> set ''Lunch''"
    "CHR 0x0A \<notin> set ''Math - Teacher 1''"
    by simp_all
  then have a: "\<forall>day \<in> set (days ?data). CHR 0x0A \<notin> set day"
    and b: "\<forall>period \<in> set (periods ?data). CHR 0x0A \<notin> set period"
    and c: "\<forall>r \<in> set (schedule ?data). \<forall>s. Some s \<in> set r \<longrightarrow> CHR 0x0A \<notin> set s"
    by simp_all
  from convertToPlainText_text_lines [OF a b c]
  obtain lines where t: "js_split CHR 0x0A (convertToPlainText ?data) =
       [''Timetable'', [],
        padEnd 15 '' '' ''Period'' @ concat (map (padEnd 20 '' '') (days ?data)),
        replicate 15 CHR ''-'' @ concat (map (\<lambda>day. replicate 20 CHR ''-'') (days ?data))]
       @ lines @ [[]]"
    and n: "length lines = length (periods ?data)"
    and l: "\<forall>p < length (periods ?data). \<exists>cells.
        lines ! p = padEnd 15 '' '' (periods ?data ! p) @ concat (map (padEnd 20 '' '') cells) \<and>
        length cells = length (days ?data) \<and>
        (\<forall>d < length (days ?data).
           cells ! d =
             (if p < length (schedule ?data) \<and> d < length (schedule ?data ! p)
              then (case schedule ?data ! p ! d of
                      None \<Rightarrow> ''Free''
                    | Some s \<Rightarrow> if s = [] then ''Free'' else s)
              else ''Free''))"
    by blast
  have two: "xs = [xs ! 0, xs ! 1]" if "length xs = 2" for xs :: "'a list"
    using that by (auto simp: length_Suc_conv numeral_2_eq_2)
  from l [rule_format, of 0] obtain cells0 where
    "lines ! 0 = padEnd 15 '' '' ''Period 1'' @ concat (map (padEnd 20 '' '') cells0)"
    "length cells0 = 2" "cells0 ! 0 = ''Math - Teacher 1''" "cells0 ! 1 = ''Free''"
    by auto
  with two [of cells0] have l0: "lines ! 0 =
      padEnd 15 '' '' ''Period 1'' @ padEnd 20 '' '' ''Math - Teacher 1'' @ padEnd 20 '' '' ''Free''"
    by simp
  from l [rule_format, of 1] obtain cells1 where
    "lines ! 1 = padEnd 15 '' '' ''Lunch'' @ concat (map (padEnd 20 '' '') cells1)"
    "length cells1 = 2" "cells1 ! 0 = ''Free''" "cells1 ! 1 = ''Free''"
    by auto
  with two [of cells1] have l1: "lines ! 1 =
      padEnd 15 '' '' ''Lunch'' @ padEnd 20 '' '' ''Free'' @ padEnd 20 '' '' ''Free''"
    by simp
  from n two [of lines] l0 l1 have "lines =
      [padEnd 15 '' '' ''Period 1'' @ padEnd 20 '' '' ''Math - Teacher 1'' @ padEnd 20 '' '' ''Free'',
       padEnd 15 '' '' ''Lunch'' @ padEnd 20 '' '' ''Free'' @ padEnd 20 '' '' ''Free'']"
    by simp
  with t have "js_split CHR 0x0A (convertToPlainText ?data)
   = [''Timetable'', [],
      ''Period         Monday              Tuesday             '',
      ''-------------------------------------------------------'',
      ''Period 1       Math - Teacher 1    Free                '',
      ''Lunch          Free                Free                '',
      []]"
    by (simp add: padEnd_def eval_nat_numeral)
  with h show ?thesis by blast
qed

section \<open>Properties of the form handler\<close>

subsection \<open>Splitting, trimming and parsing\<close>

lemma js_split_no_separator: "c \<notin> set s \<Longrightarrow> js_split c s = [s]"
  by (induction s) auto

lemma trim_unchanged:
  assumes "s \<noteq> []" and "\<not> isWhiteSpace (hd s)" and "\<not> isWhiteSpace (last s)"
  shows "trim s = s"
proof -
  from assms have "dropWhile isWhiteSpace s = s"
    by (simp add: dropWhile_eq_self_iff)
  moreover from assms have "dropWhile isWhiteSpace (rev s) = rev s"
    by (simp add: dropWhile_eq_self_iff hd_rev)
  ultimately show ?thesis
    by (simp add: trim_def)
qed

lemma digit_not_white: "isDigit c \<Longrightarrow> \<not> isWhiteSpace c"
  by (auto simp: isDigit_def isWhiteSpace_def)

lemma digit_not_sign: "isDigit c \<Longrightarrow> c \<noteq> CHR ''+'' \<and> c \<noteq> CHR ''-'' \<and> c \<noteq> CHR '',''"
  by (auto simp: isDigit_def)

lemma parseInt_digits:
  assumes "Z \<noteq> []" and "\<forall>c \<in> set Z. isDigit c"
  shows "parseInt Z = number_value (mathInt Z)"
proof -
  from assms have h: "isDigit (hd Z)" by simp
  with assms(1) have "dropWhile isWhiteSpace Z = Z"
    by (simp add: dropWhile_eq_self_iff digit_not_white)
  moreover from assms(2) have "takeWhile isDigit Z = Z"
    by (simp add: takeWhile_eq_all_conv)
  ultimately show ?thesis
    using assms(1) digit_not_sign [OF h]
    by (simp add: parseInt_def Let_def del: takeWhile_eq_all_conv)
qed

text \<open>
  The bit length brackets a positive integer between two powers of two, so every integer
  from \<open>2^1024\<close> on has the number value \<open>Infinity\<close>.
\<close>

lemma bit_length_upper: "0 \<le> n \<Longrightarrow> n < 2 ^ bit_length n"
proof (induction n rule: bit_length.induct)
  case (1 n)
  show ?case
  proof (cases "n \<le> 0")
    case True
    with "1.prems" show ?thesis by (simp add: bit_length.simps)
  next
    case False
    with "1.IH" have "n div 2 < 2 ^ bit_length (n div 2)" by simp
    then have "n < 2 * 2 ^ bit_length (n div 2)" by linarith
    with False show ?thesis by (simp add: bit_length.simps [of n])
  qed
qed

lemma bit_length_lower: "0 < n \<Longrightarrow> 2 ^ (bit_length n - 1) \<le> n"
proof (induction n rule: bit_length.induct)
  case (1 n)
  from "1.prems" have b: "bit_length n = Suc (bit_length (n div 2))"
    by (simp add: bit_length.simps [of n])
  show ?case
  proof (cases "0 < n div 2")
    case True
    with "1.IH" "1.prems" have i: "2 ^ (bit_length (n div 2) - 1) \<le> n div 2" by simp
    from True have "bit_length (n div 2) = Suc (bit_length (n div 2) - 1)"
      by (simp add: bit_length.simps [of "n div 2"])
    then have "(2::int) ^ bit_length (n div 2) = 2 * 2 ^ (bit_length (n div 2) - 1)"
      by (metis power_Suc)
    with i have "(2::int) ^ bit_length (n div 2) \<le> n" by linarith
    with b show ?thesis by simp
  next
    case False
    with "1.prems" have "n div 2 = 0" by simp
    then have "bit_length (n div 2) = 0" by (simp add: bit_length.simps)
    with b "1.prems" show ?thesis by simp
  qed
qed

lemma number_value_overflow:
  assumes "2 ^ 1024 \<le> n"
  shows "number_value n = PosInfinity"
proof -
  define L where "L = bit_length n"
  define e where "e = L - 53"
  define q where "q = n div 2 ^ e"
  have "(0::int) < 2 ^ 1024" by simp
  with assms have pos: "0 < n" by linarith
  have "(2::int) ^ 53 \<le> 2 ^ 1024" by simp
  with assms have big: "\<not> n < 2 ^ 53" by linarith
  from pos have "n < 2 ^ L" unfolding L_def by (simp add: bit_length_upper)
  with assms have "(2::int) ^ 1024 < 2 ^ L" by linarith
  then have L: "1024 < L" by (rule power_less_imp_less_exp [rotated]) simp
  from pos have low: "2 ^ (L - 1) \<le> n" unfolding L_def by (rule bit_length_lower)
  from L have split: "L - 1 = 52 + e" by (simp add: e_def)
  have pow: "(2::int) ^ (L - 1) = 2 ^ 52 * 2 ^ e"
    by (simp only: split power_add)
  then have "(2::int) ^ 52 = 2 ^ (L - 1) div 2 ^ e"
    by simp
  also from low have "\<dots> \<le> q"
    unfolding q_def by (intro zdiv_mono1) simp_all
  finally have "2 ^ 52 * 2 ^ e \<le> q * (2::int) ^ e"
    by (intro mult_right_mono) simp_all
  with pow have "2 ^ (L - 1) \<le> q * (2::int) ^ e"
    by simp
  moreover from L have "(2::int) ^ 1024 \<le> 2 ^ (L - 1)"
    by (intro power_increasing) simp_all
  ultimately have q: "2 ^ 1024 \<le> q * (2::int) ^ e" by linarith
  moreover have "q * (2::int) ^ e \<le> (q + 1) * 2 ^ e"
    by (intro mult_right_mono) simp_all
  ultimately have "2 ^ 1024 \<le> (q + 1) * (2::int) ^ e"
    by linarith
  with q big show ?thesis
    by (simp add: number_value_def Let_def L_def [symmetric] e_def [symmetric] q_def [symmetric])
qed

lemma mathInt_zeros:
  "foldl (\<lambda>acc c. 10 * acc + digitValue c) a (replicate n CHR ''0'') = a * 10 ^ n"
  by (induction n arbitrary: a) (simp_all add: digitValue_def)

lemma mathInt_one_zeros: "mathInt (CHR ''1'' # replicate n CHR ''0'') = 10 ^ n"
proof -
  have "digitValue CHR ''1'' = 1" by (simp add: digitValue_def)
  then show ?thesis by (simp add: mathInt_def mathInt_zeros)
qed

lemma parseInt_one_zeros_309: "parseInt (CHR ''1'' # replicate 309 CHR ''0'') = PosInfinity"
proof -
  have "parseInt (CHR ''1'' # replicate 309 CHR ''0'')
      = number_value (mathInt (CHR ''1'' # replicate 309 CHR ''0''))"
    by (rule parseInt_digits) (auto simp: isDigit_def)
  also have "\<dots> = number_value (10 ^ 309)"
    by (simp only: mathInt_one_zeros)
  also have "\<dots> = PosInfinity"
    by (rule number_value_overflow) simp
  finally show ?thesis .
qed


text \<open>
  What the handler does guarantee of the input it sends: every subject is trimmed and not
  empty, the two lists have the same length, and every teacher count is a non-negative
  integer or \<open>Infinity\<close>.
\<close>

lemma trim_trim: "trim (trim s) = trim s"
proof -
  define a where "a = dropWhile isWhiteSpace s"
  define b where "b = dropWhile isWhiteSpace (rev a)"
  have ts: "trim s = rev b" by (simp add: trim_def a_def b_def)
  show ?thesis
  proof (cases "b = []")
    case True
    have "trim [] = []" by (simp add: trim_def)
    with True ts show ?thesis by simp
  next
    case False
    then have hb: "\<not> isWhiteSpace (hd b)"
      unfolding b_def by (rule hd_dropWhile)
    have "rev a = takeWhile isWhiteSpace (rev a) @ b"
      by (simp add: b_def)
    with False have "last (rev a) = last b"
      by (metis last_appendR)
    moreover from False have an: "a \<noteq> []" by (auto simp: b_def)
    ultimately have "last b = hd a" by (simp add: last_rev)
    moreover from an have "\<not> isWhiteSpace (hd a)"
      unfolding a_def by (rule hd_dropWhile)
    ultimately have "\<not> isWhiteSpace (last b)" by simp
    with False hb have "trim (rev b) = rev b"
      by (intro trim_unchanged) (simp_all add: hd_rev last_rev)
    with ts show ?thesis by simp
  qed
qed

lemma number_value_range:
  assumes "0 \<le> n"
  shows "number_value n = PosInfinity \<or> (\<exists>k\<ge>0. number_value n = Num (of_int k))"
proof -
  define e where "e = bit_length n - 53"
  define q where "q = n div 2 ^ e"
  define q' where "q' = (if 2 ^ e < 2 * (n mod 2 ^ e) \<or> (2 * (n mod 2 ^ e) = 2 ^ e \<and> odd q)
    then q + 1 else q)"
  define v where "v = q' * 2 ^ e"
  have nv: "number_value n =
      (if n < 2 ^ 53 then Num (of_int n) else if 2 ^ 1024 \<le> v then PosInfinity else Num (of_int v))"
    unfolding number_value_def Let_def e_def [symmetric] q_def [symmetric] q'_def [symmetric]
      v_def [symmetric] ..
  from assms have "0 \<le> q" by (simp add: q_def pos_imp_zdiv_nonneg_iff)
  then have "0 \<le> q'" by (simp add: q'_def)
  then have "0 \<le> v" by (simp add: v_def)
  with assms nv show ?thesis by auto
qed

lemma digitValue_nonneg: "isDigit c \<Longrightarrow> 0 \<le> digitValue c"
proof -
  assume "isDigit c"
  then have "48 \<le> (of_char c :: nat)" by (simp add: isDigit_def)
  then have "48 \<le> int (of_char c)" by linarith
  then show ?thesis by (simp add: digitValue_def of_nat_of_char)
qed

lemma foldl_digits_nonneg:
  "\<forall>c \<in> set Z. isDigit c \<Longrightarrow> 0 \<le> a \<Longrightarrow> 0 \<le> foldl (\<lambda>acc c. 10 * acc + digitValue c) a Z"
  by (induction Z arbitrary: a) (simp_all add: digitValue_nonneg)

lemma mathInt_nonneg: "0 \<le> mathInt (takeWhile isDigit S)"
  unfolding mathInt_def
  by (rule foldl_digits_nonneg) (auto dest: set_takeWhileD)

lemma parseInt_range:
  assumes "\<not> isNaN (parseInt s)" and "js_le (Num 0) (parseInt s)"
  shows "parseInt s = PosInfinity \<or> (\<exists>k\<ge>0. parseInt s = Num (of_int k))"
proof -
  define S where "S = dropWhile isWhiteSpace s"
  define S' where "S' = (if S \<noteq> [] \<and> (hd S = CHR ''+'' \<or> hd S = CHR ''-'') then tl S else S)"
  define m where "m = mathInt (takeWhile isDigit S')"
  have m: "0 \<le> m" unfolding m_def by (rule mathInt_nonneg)
  have p: "parseInt s = NaN \<or> parseInt s = js_negate (number_value m) \<or> parseInt s = number_value m"
    by (simp add: parseInt_def Let_def S_def S'_def m_def)
  from number_value_range [OF m] consider "number_value m = PosInfinity"
    | k where "0 \<le> k" "number_value m = Num (of_int k)" by blast
  then show ?thesis
  proof cases
    case 1
    with p assms show ?thesis by auto
  next
    case (2 k)
    from p assms(1) consider "parseInt s = js_negate (number_value m)"
      | "parseInt s = number_value m" by auto
    then show ?thesis
    proof cases
      case 1
      with 2 have e: "parseInt s = Num (- of_int k)" by simp
      with assms(2) 2 have "k = 0" by simp
      with e have "parseInt s = Num (of_int 0)" by simp
      then show ?thesis by blast
    next
      case 2
      with \<open>number_value m = Num (of_int k)\<close> \<open>0 \<le> k\<close> show ?thesis by auto
    qed
  qed
qed

lemma handleGenerateTimetable_ActionCalled:
  assumes "handleGenerateTimetable values = ActionCalled input"
  shows "(\<forall>s \<in> set (subjects input). s \<noteq> [] \<and> trim s = s) \<and>
    (\<forall>n \<in> set (teachersPerSubject input). n = PosInfinity \<or> (\<exists>k\<ge>0. n = Num (of_int k))) \<and>
    length (subjects input) = length (teachersPerSubject input)"
proof -
  from assms have i: "input = handleGenerateTimetable_input values"
    and l: "length (subjects input) = length (teachersPerSubject input)"
    by (auto simp: handleGenerateTimetable_def Let_def split: if_splits)
  from i have "\<forall>s \<in> set (subjects input). s \<noteq> [] \<and> trim s = s"
    by (auto simp: handleGenerateTimetable_input_def trim_trim)
  moreover from i have "\<forall>n \<in> set (teachersPerSubject input).
      n = PosInfinity \<or> (\<exists>k\<ge>0. n = Num (of_int k))"
    by (auto simp: handleGenerateTimetable_input_def dest: parseInt_range)
  ultimately show ?thesis using l by blast
qed

subsection \<open>The teacher counts sent to the action\<close>

text \<open>
  Claim C8 says that every submission reaching the action carries trimmed non-empty subjects,
  non-negative integers as teacher counts, and lists of equal length. The filter on the
  counts, \<open>!isNaN(n) && n >= 0\<close>, is commented "Ensure non-negative integers", but
  \<open>parseInt\<close> of a long enough run of digits is \<open>Infinity\<close>, which passes it. For the
  subject Math and a count written as 1 followed by 309 zeros, the form schema accepts the
  values and the handler calls the action with \<open>teachersPerSubject = [Infinity]\<close>, which is
  not an integer.
\<close>

theorem teacher_count_overflows:
  "formSchema \<lparr>form_workingDays = Num 5, form_classesPerDay = Num 4, form_subjects = ''Math'',
      form_teachersPerSubject = CHR ''1'' # replicate 309 CHR ''0'', form_otherConstraints = None\<rparr> \<and>
   handleGenerateTimetable \<lparr>form_workingDays = Num 5, form_classesPerDay = Num 4,
      form_subjects = ''Math'', form_teachersPerSubject = CHR ''1'' # replicate 309 CHR ''0'',
      form_otherConstraints = None\<rparr>
   = ActionCalled \<lparr>workingDays = Num 5, classesPerDay = Num 4, subjects = [''Math''],
      teachersPerSubject = [PosInfinity], otherConstraints = Some []\<rparr> \<and>
   \<not> isInteger PosInfinity"
proof -
  define count where "count = CHR ''1'' # replicate 309 CHR ''0''"
  have s: "js_split CHR '','' ''Math'' = [''Math'']" and t: "trim ''Math'' = ''Math''"
    by (simp_all add: js_split_no_separator trim_unchanged isWhiteSpace_def)
  have s': "js_split CHR '','' count = [count]"
    unfolding count_def by (rule js_split_no_separator) simp
  have t': "trim count = count"
    unfolding count_def by (rule trim_unchanged) (simp_all add: isWhiteSpace_def)
  have p: "parseInt count = PosInfinity"
    unfolding count_def by (rule parseInt_one_zeros_309)
  have n: "count \<noteq> []" "Suc 0 \<le> length count" by (simp_all add: count_def)
  note facts = s t s' t' p n
  have "formSchema \<lparr>form_workingDays = Num 5, form_classesPerDay = Num 4, form_subjects = ''Math'',
      form_teachersPerSubject = count, form_otherConstraints = None\<rparr>"
    by (simp add: formSchema_def positive_def facts)
  moreover have "handleGenerateTimetable \<lparr>form_workingDays = Num 5, form_classesPerDay = Num 4,
      form_subjects = ''Math'', form_teachersPerSubject = count, form_otherConstraints = None\<rparr>
   = ActionCalled \<lparr>workingDays = Num 5, classesPerDay = Num 4, subjects = [''Math''],
      teachersPerSubject = [PosInfinity], otherConstraints = Some []\<rparr>"
    by (simp add: handleGenerateTimetable_def handleGenerateTimetable_input_def facts)
  ultimately show ?thesis
    by (simp only: count_def isInteger.simps) simp
qed

end
